theory Spec2Isabelle
  imports Main
begin

section \<open>Data model\<close>

text \<open>
  The package \<open>client\<close> wraps remote HTTP endpoints. Every operation is a straight line
  of calls to collaborators (token source, URL builders, HTTP transport, the standard
  library's JSON, MIME and multipart code, the buffer pool, the file system). The
  collaborators are parameters of the model (the record \<open>env\<close>); every call to one of
  them that has an effect is logged as an \<open>event\<close>, in the order the source performs it.
  Go's \<open>int\<close> and \<open>int64\<close> are \<open>int\<close>: the code does no arithmetic on them.
\<close>

type_synonym bytes = string

text \<open>
  Modelled from the spec: the type \<open>Error\<close> of package \<open>client\<close> is declared outside the
  two source files; it is the error envelope {error code, error message}, with the JSON
  names \<open>errcode\<close> and \<open>errmsg\<close>, and doubles as an error value.
\<close>

record Error =
  ErrCode :: int
  ErrMsg :: string

text \<open>
  Modelled from the spec: \<open>media.UploadResponse\<close> is declared outside the two source
  files; its JSON names are \<open>type\<close>, \<open>media_id\<close> and \<open>created_at\<close>.
\<close>

record UploadResponse =
  MediaType :: string
  MediaId :: string
  CreatedAt :: int

text \<open>
  Values of Go's interface \<open>error\<close>: \<open>ErrorsNew s\<close> is \<open>errors.New(s)\<close>,
  \<open>FmtErrorf s\<close> is the value of \<open>fmt.Errorf\<close> with the formatted message \<open>s\<close>,
  \<open>RemoteError e\<close> is a pointer to an \<open>Error\<close>, and \<open>Foreign s\<close> is any error value
  made by a collaborator.
\<close>

datatype goerror =
    ErrorsNew string
  | FmtErrorf string
  | RemoteError Error
  | Foreign string

text \<open>A JSON value, as the encoder takes it and the decoder yields it.\<close>

datatype jval =
    JString string
  | JInt int
  | JObject "(string \<times> jval) list"
  | JArray "jval list"

text \<open>
  Modelled from the spec: \<open>media.News\<close>, \<open>media.Video\<close> and \<open>order.Order\<close> are declared
  outside the two source files; they are structures defined by the remote API that the
  client passes through as they are. A value of one of these types is kept as its JSON
  image.
\<close>

type_synonym News = jval
type_synonym Video = jval
type_synonym Order = jval

text \<open>
  The fields a JSON decoder has set in its destination struct, keyed by the field's
  JSON name (its tag). A field the decoder has not set keeps Go's zero value.
\<close>

type_synonym jfields = "(string \<times> jval) list"

definition str_field :: "jfields \<Rightarrow> string \<Rightarrow> string" where
  "str_field m k = (case map_of m k of Some (JString s) \<Rightarrow> s | _ \<Rightarrow> [])"

definition int_field :: "jfields \<Rightarrow> string \<Rightarrow> int" where
  "int_field m k = (case map_of m k of Some (JInt n) \<Rightarrow> n | _ \<Rightarrow> 0)"

text \<open>An \<open>io.Reader\<close>: the bytes it delivers, then end of input or a read error.\<close>

record reader =
  rdata :: bytes
  rerr :: "goerror option"

text \<open>
  An \<open>io.Writer\<close>: the bytes written to it so far, and how many further bytes it
  accepts before failing with which error (\<open>None\<close>: it never fails).
\<close>

record writer =
  written :: bytes
  wlimit :: "(nat \<times> goerror) option"

text \<open>
  \<open>io.Copy(dst, src)\<close>: copies until the source is exhausted or an error occurs, and
  returns the first error (end of input is no error).
\<close>

definition io_Copy :: "writer \<Rightarrow> reader \<Rightarrow> writer \<times> goerror option" where
  "io_Copy dst src =
     (case wlimit dst of
        None \<Rightarrow> (dst\<lparr>written := written dst @ rdata src\<rparr>, rerr src)
      | Some (n, e) \<Rightarrow>
          if length (rdata src) \<le> n
          then (dst\<lparr>written := written dst @ rdata src,
                     wlimit := Some (n - length (rdata src), e)\<rparr>, rerr src)
          else (dst\<lparr>written := written dst @ take n (rdata src),
                     wlimit := Some (0, e)\<rparr>, Some e))"

record Response =
  StatusCode :: int
  Status :: string
  Header :: "string \<Rightarrow> string"
  Body :: reader

datatype event =
    EvToken
  | EvPoolGet
  | EvPoolPut
  | EvPost string string bytes
  | EvGet string
  | EvBodyClose
  | EvDecode
  | EvOpen string
  | EvCreate string
  | EvFileClose

type_synonym trace = "event list"

text \<open>The buffer pool events of a trace, in order.\<close>

definition pool_events :: "trace \<Rightarrow> trace" where
  "pool_events tr = filter (\<lambda>e. e = EvPoolGet \<or> e = EvPoolPut) tr"

text \<open>
  The collaborators. None of them is defined in the two source files.
  \<^item> \<open>Token\<close>: \<open>c.Token()\<close>.
  \<^item> \<open>httpClient_Post url contentType body\<close>, \<open>httpClient_Get url\<close>: the transport.
  \<^item> the URL builders, named as in the source.
  \<^item> \<open>multipart_CreateFormFile fieldname filename\<close>: the bytes of the part header it
    writes to the buffer, or an error; \<open>multipart_FormDataContentType\<close>;
    \<open>multipart_Close\<close>: the closing boundary it writes, or an error.
  \<^item> \<open>mime_ParseMediaType v\<close>: the media type \<open>mime.ParseMediaType\<close> returns (the source
    drops its other two results).
  \<^item> \<open>json_Decode tags r\<close>: \<open>json.NewDecoder(r).Decode(&result)\<close>, where \<open>tags\<close> are the
    JSON names of the fields of \<open>result\<close>: an error, or the fields it has set.
  \<^item> \<open>json_Encode v\<close>: the JSON text of a request value, or an error;
    \<open>jsonContentType\<close>: the content type sent with a JSON request.
  \<^item> \<open>os_Open\<close>, \<open>os_Create\<close>, \<open>filepath_Base\<close>: the file system.
\<close>

record env =
  Token :: "goerror + string"
  httpClient_Post :: "string \<Rightarrow> string \<Rightarrow> bytes \<Rightarrow> goerror + Response"
  httpClient_Get :: "string \<Rightarrow> goerror + Response"
  mediaUploadURL :: "string \<Rightarrow> string \<Rightarrow> string"
  mediaDownloadURL :: "string \<Rightarrow> string \<Rightarrow> string"
  mediaUploadNewsURL :: "string \<Rightarrow> string"
  mediaUploadVideoURL :: "string \<Rightarrow> string"
  merchantOrderGetByIdURL :: "string \<Rightarrow> string"
  merchantOrderGetByFilterURL :: "string \<Rightarrow> string"
  merchantOrderSetDeliveryURL :: "string \<Rightarrow> string"
  merchantOrderCloseURL :: "string \<Rightarrow> string"
  multipart_CreateFormFile :: "string \<Rightarrow> string \<Rightarrow> goerror + bytes"
  multipart_FormDataContentType :: string
  multipart_Close :: "goerror + bytes"
  mime_ParseMediaType :: "string \<Rightarrow> string"
  json_Decode :: "string list \<Rightarrow> reader \<Rightarrow> goerror + jfields"
  json_Encode :: "jval \<Rightarrow> goerror + bytes"
  jsonContentType :: string
  os_Open :: "string \<Rightarrow> goerror + reader"
  os_Create :: "string \<Rightarrow> goerror + writer"
  filepath_Base :: "string \<Rightarrow> string"

section \<open>Constants and decoded structs\<close>

text \<open>
  Modelled from the spec: the constants of package \<open>media\<close> are declared outside the
  two source files; the media types are image, voice, video and thumb.
\<close>

definition MEDIA_TYPE_IMAGE :: string where "MEDIA_TYPE_IMAGE = ''image''"
definition MEDIA_TYPE_VOICE :: string where "MEDIA_TYPE_VOICE = ''voice''"
definition MEDIA_TYPE_VIDEO :: string where "MEDIA_TYPE_VIDEO = ''video''"
definition MEDIA_TYPE_THUMB :: string where "MEDIA_TYPE_THUMB = ''thumb''"

definition http_StatusOK :: int where "http_StatusOK = 200"

text \<open>The embedded \<open>Error\<close> and \<open>media.UploadResponse\<close> of a decoded result struct.\<close>

definition result_Error :: "jfields \<Rightarrow> Error" where
  "result_Error result =
     \<lparr>ErrCode = int_field result ''errcode'', ErrMsg = str_field result ''errmsg''\<rparr>"

definition result_UploadResponse :: "jfields \<Rightarrow> UploadResponse" where
  "result_UploadResponse result =
     \<lparr>MediaType = str_field result ''type'', MediaId = str_field result ''media_id'',
      CreatedAt = int_field result ''created_at''\<rparr>"

text \<open>The JSON names of the fields of the result structs, in declaration order.\<close>

definition thumb_result_tags :: "string list" where
  "thumb_result_tags = [''type'', ''thumb_media_id'', ''created_at'', ''errcode'', ''errmsg'']"

definition upload_result_tags :: "string list" where
  "upload_result_tags = [''type'', ''media_id'', ''created_at'', ''errcode'', ''errmsg'']"

definition Error_tags :: "string list" where
  "Error_tags = [''errcode'', ''errmsg'']"

text \<open>The message of the first precondition error of \<open>MediaUpload\<close>, in UTF-8.\<close>

definition bad_mediaType_msg :: string where
  "bad_mediaType_msg =
     [CHR 0xE9, CHR 0x94, CHR 0x99, CHR 0xE8, CHR 0xAF, CHR 0xAF, CHR 0xE7, CHR 0x9A, CHR 0x84]
     @ '' mediaType''"

section \<open>Media upload\<close>

type_synonym upload_return = "(UploadResponse option \<times> goerror option) \<times> trace"

text \<open>Lines 90 to 123 of \<open>MediaUpload\<close>: decoding the response by media type.\<close>

definition MediaUpload_decode :: "env \<Rightarrow> string \<Rightarrow> Response \<Rightarrow> trace \<Rightarrow> upload_return" where
  "MediaUpload_decode c mediaType resp tr =
     (if mediaType = MEDIA_TYPE_THUMB then
        (case json_Decode c thumb_result_tags (Body resp) of
           Inl err \<Rightarrow> ((None, Some err), tr @ [EvDecode])
         | Inr result \<Rightarrow>
             if int_field result ''errcode'' \<noteq> 0
             then ((None, Some (RemoteError (result_Error result))), tr @ [EvDecode])
             else ((Some \<lparr>MediaType = str_field result ''type'',
                          MediaId = str_field result ''thumb_media_id'',
                          CreatedAt = int_field result ''created_at''\<rparr>, None),
                   tr @ [EvDecode]))
      else
        (case json_Decode c upload_result_tags (Body resp) of
           Inl err \<Rightarrow> ((None, Some err), tr @ [EvDecode])
         | Inr result \<Rightarrow>
             if int_field result ''errcode'' \<noteq> 0
             then ((None, Some (RemoteError (result_Error result))), tr @ [EvDecode])
             else ((Some (result_UploadResponse result), None), tr @ [EvDecode])))"

text \<open>Lines 86 to 123: the status check, then the decoding.\<close>

definition MediaUpload_response :: "env \<Rightarrow> string \<Rightarrow> Response \<Rightarrow> trace \<Rightarrow> upload_return" where
  "MediaUpload_response c mediaType resp tr =
     (if StatusCode resp \<noteq> http_StatusOK
      then ((None, Some (FmtErrorf (''http.Status: '' @ Status resp))), tr)
      else MediaUpload_decode c mediaType resp tr)"

text \<open>
  Lines 64 to 123: what runs between drawing the buffer from the pool and the deferred
  return of the buffer. The buffer is an in-memory writer that never fails. The deferred
  \<open>resp.Body.Close()\<close> runs on every return after line 84.
\<close>

definition MediaUpload_pooled ::
  "env \<Rightarrow> string \<Rightarrow> string \<Rightarrow> string \<Rightarrow> reader \<Rightarrow> trace \<Rightarrow> upload_return" where
  "MediaUpload_pooled c token mediaType filename mediaReader tr =
     (case multipart_CreateFormFile c ''file'' filename of
        Inl err \<Rightarrow> ((None, Some err), tr)
      | Inr header \<Rightarrow>
          (case io_Copy \<lparr>written = header, wlimit = None\<rparr> mediaReader of
             (bodyBuf, Some err) \<Rightarrow> ((None, Some err), tr)
           | (bodyBuf, None) \<Rightarrow>
               let bodyContentType = multipart_FormDataContentType c in
               (case multipart_Close c of
                  Inl err \<Rightarrow> ((None, Some err), tr)
                | Inr trailer \<Rightarrow>
                    let url = mediaUploadURL c token mediaType;
                        body = written bodyBuf @ trailer in
                    (case httpClient_Post c url bodyContentType body of
                       Inl err \<Rightarrow> ((None, Some err), tr @ [EvPost url bodyContentType body])
                     | Inr resp \<Rightarrow>
                         (case MediaUpload_response c mediaType resp
                                 (tr @ [EvPost url bodyContentType body]) of
                            (ret, tr') \<Rightarrow> (ret, tr' @ [EvBodyClose]))))))"

text \<open>\<open>MediaUpload\<close>, lines 40 to 124. A nil \<open>mediaReader\<close> is \<open>None\<close>.\<close>

definition MediaUpload ::
  "env \<Rightarrow> string \<Rightarrow> string \<Rightarrow> reader option \<Rightarrow> trace \<Rightarrow> upload_return" where
  \<open>MediaUpload c mediaType filename mediaReader tr =
     (if mediaType \<noteq> MEDIA_TYPE_IMAGE \<and> mediaType \<noteq> MEDIA_TYPE_VOICE \<and>
         mediaType \<noteq> MEDIA_TYPE_VIDEO \<and> mediaType \<noteq> MEDIA_TYPE_THUMB
      then ((None, Some (ErrorsNew bad_mediaType_msg)), tr)
      else if filename = []
      then ((None, Some (ErrorsNew ''filename == ""'')), tr)
      else
        (case mediaReader of
           None \<Rightarrow> ((None, Some (ErrorsNew ''mediaReader == nil'')), tr)
         | Some rd \<Rightarrow>
             (case Token c of
                Inl err \<Rightarrow> ((None, Some err), tr @ [EvToken])
              | Inr token \<Rightarrow>
                  (case MediaUpload_pooled c token mediaType filename rd
                          (tr @ [EvToken, EvPoolGet]) of
                     (ret, tr') \<Rightarrow> (ret, tr' @ [EvPoolPut])))))\<close>

text \<open>\<open>MediaUploadFromFile\<close>, lines 22 to 30.\<close>

definition MediaUploadFromFile :: "env \<Rightarrow> string \<Rightarrow> string \<Rightarrow> trace \<Rightarrow> upload_return" where
  "MediaUploadFromFile c mediaType filePath tr =
     (case os_Open c filePath of
        Inl err \<Rightarrow> ((None, Some err), tr @ [EvOpen filePath])
      | Inr file \<Rightarrow>
          (case MediaUpload c mediaType (filepath_Base c filePath) (Some file)
                  (tr @ [EvOpen filePath]) of
             (ret, tr') \<Rightarrow> (ret, tr' @ [EvFileClose])))"

section \<open>Media download\<close>

type_synonym download_return = "goerror option \<times> writer \<times> trace"

text \<open>Lines 160 to 176 of \<open>MediaDownload\<close>.\<close>

definition MediaDownload_response :: "env \<Rightarrow> Response \<Rightarrow> writer \<Rightarrow> trace \<Rightarrow> download_return" where
  "MediaDownload_response c resp w tr =
     (if StatusCode resp \<noteq> http_StatusOK
      then (Some (FmtErrorf (''http.Status: '' @ Status resp)), w, tr)
      else
        let contentType = mime_ParseMediaType c (Header resp ''Content-Type'') in
        if contentType \<noteq> ''text/plain'' \<and> contentType \<noteq> ''application/json''
        then (case io_Copy w (Body resp) of (w', err) \<Rightarrow> (err, w', tr))
        else
          (case json_Decode c Error_tags (Body resp) of
             Inl err \<Rightarrow> (Some err, w, tr @ [EvDecode])
           | Inr result \<Rightarrow> (Some (RemoteError (result_Error result)), w, tr @ [EvDecode])))"

text \<open>
  \<open>MediaDownload\<close>, lines 140 to 177. A nil \<open>writer\<close> is \<open>None\<close>; the second component
  of the value is the writer after the call.
\<close>

definition MediaDownload ::
  "env \<Rightarrow> string \<Rightarrow> writer option \<Rightarrow> trace \<Rightarrow> goerror option \<times> writer option \<times> trace" where
  \<open>MediaDownload c mediaId writer tr =
     (if mediaId = []
      then (Some (ErrorsNew ''mediaId == ""''), writer, tr)
      else
        (case writer of
           None \<Rightarrow> (Some (ErrorsNew ''writer == nil''), None, tr)
         | Some w \<Rightarrow>
             (case Token c of
                Inl err \<Rightarrow> (Some err, Some w, tr @ [EvToken])
              | Inr token \<Rightarrow>
                  let url = mediaDownloadURL c token mediaId in
                  (case httpClient_Get c url of
                     Inl err \<Rightarrow> (Some err, Some w, tr @ [EvToken, EvGet url])
                   | Inr resp \<Rightarrow>
                       (case MediaDownload_response c resp w (tr @ [EvToken, EvGet url]) of
                          (err, w', tr') \<Rightarrow> (err, Some w', tr' @ [EvBodyClose]))))))\<close>

text \<open>\<open>MediaDownloadToFile\<close>, lines 128 to 136.\<close>

definition MediaDownloadToFile ::
  "env \<Rightarrow> string \<Rightarrow> string \<Rightarrow> trace \<Rightarrow> goerror option \<times> writer option \<times> trace" where
  "MediaDownloadToFile c mediaId filePath tr =
     (case os_Create c filePath of
        Inl err \<Rightarrow> (Some err, None, tr @ [EvCreate filePath])
      | Inr file \<Rightarrow>
          (case MediaDownload c mediaId (Some file) (tr @ [EvCreate filePath]) of
             (err, w', tr') \<Rightarrow> (err, w', tr' @ [EvFileClose])))"

section \<open>The JSON POST helper\<close>

text \<open>
  Modelled from the spec: \<open>postJSON\<close> is a method of the client defined outside the two
  source files. The spec gives it as the generic "POST JSON, decode JSON" helper, which
  takes a URL, a request value and a destination to decode into: it serialises the
  request as JSON, issues a single HTTP POST, requires status 200 (any other status is a
  status-derived error, raised before any decoding), decodes the response into the
  destination, passes transport and decode errors on unchanged and releases the response
  body on every exit path. The content type it sends is the parameter
  \<open>jsonContentType\<close>. Its value here is its error, or the fields set in the destination.
\<close>

definition postJSON ::
  "env \<Rightarrow> string \<Rightarrow> jval \<Rightarrow> string list \<Rightarrow> trace \<Rightarrow> (goerror + jfields) \<times> trace" where
  "postJSON c url request tags tr =
     (case json_Encode c request of
        Inl err \<Rightarrow> (Inl err, tr)
      | Inr body \<Rightarrow>
          (case httpClient_Post c url (jsonContentType c) body of
             Inl err \<Rightarrow> (Inl err, tr @ [EvPost url (jsonContentType c) body])
           | Inr resp \<Rightarrow>
               if StatusCode resp \<noteq> http_StatusOK
               then (Inl (FmtErrorf (''http.Status: '' @ Status resp)),
                     tr @ [EvPost url (jsonContentType c) body, EvBodyClose])
               else (json_Decode c tags (Body resp),
                     tr @ [EvPost url (jsonContentType c) body, EvDecode, EvBodyClose])))"

section \<open>News and video upload\<close>

text \<open>Lines 191 to 202 and 217 to 228: the same steps in both operations.\<close>

definition upload_result :: "(goerror + jfields) \<times> trace \<Rightarrow> upload_return" where
  "upload_result r =
     (case r of
        (Inl err, tr') \<Rightarrow> ((None, Some err), tr')
      | (Inr result, tr') \<Rightarrow>
          if int_field result ''errcode'' \<noteq> 0
          then ((None, Some (RemoteError (result_Error result))), tr')
          else ((Some (result_UploadResponse result), None), tr'))"

text \<open>\<open>MediaUploadNews\<close>, lines 180 to 203. A nil \<open>news\<close> is \<open>None\<close>.\<close>

definition MediaUploadNews :: "env \<Rightarrow> News option \<Rightarrow> trace \<Rightarrow> upload_return" where
  "MediaUploadNews c news tr =
     (case news of
        None \<Rightarrow> ((None, Some (ErrorsNew ''news == nil'')), tr)
      | Some n \<Rightarrow>
          (case Token c of
             Inl err \<Rightarrow> ((None, Some err), tr @ [EvToken])
           | Inr token \<Rightarrow>
               let url = mediaUploadNewsURL c token in
               upload_result (postJSON c url n upload_result_tags (tr @ [EvToken]))))"

text \<open>\<open>MediaUploadVideo\<close>, lines 206 to 229. A nil \<open>video\<close> is \<open>None\<close>.\<close>

definition MediaUploadVideo :: "env \<Rightarrow> Video option \<Rightarrow> trace \<Rightarrow> upload_return" where
  "MediaUploadVideo c video tr =
     (case video of
        None \<Rightarrow> ((None, Some (ErrorsNew ''video == nil'')), tr)
      | Some v \<Rightarrow>
          (case Token c of
             Inl err \<Rightarrow> ((None, Some err), tr @ [EvToken])
           | Inr token \<Rightarrow>
               let url = mediaUploadVideoURL c token in
               upload_result (postJSON c url v upload_result_tags (tr @ [EvToken]))))"

section \<open>Merchant orders\<close>

text \<open>
  The field \<open>Order\<close> of a decoded result (the zero \<open>order.Order\<close> is the empty object)
  and the field \<open>OrderList\<close>, which the source sets to an empty slice before decoding.
\<close>

definition order_field :: "jfields \<Rightarrow> string \<Rightarrow> Order" where
  "order_field m k = (case map_of m k of Some v \<Rightarrow> v | None \<Rightarrow> JObject [])"

definition list_field :: "jfields \<Rightarrow> string \<Rightarrow> Order list" where
  "list_field m k = (case map_of m k of Some (JArray vs) \<Rightarrow> vs | _ \<Rightarrow> [])"

text \<open>
  The JSON members of an integer field tagged \<open>omitempty\<close> and of a plain string field:
  \<open>encoding/json\<close> leaves out a field tagged \<open>omitempty\<close> whose value is 0.
\<close>

definition omitempty :: "string \<Rightarrow> int \<Rightarrow> (string \<times> jval) list" where
  "omitempty k v = (if v = 0 then [] else [(k, JInt v)])"

text \<open>The request structs of the four operations, as the JSON encoder sees them.\<close>

definition GetById_request :: "string \<Rightarrow> jval" where
  "GetById_request orderId = JObject [(''order_id'', JString orderId)]"

definition GetByFilter_request :: "int \<Rightarrow> int \<Rightarrow> int \<Rightarrow> jval" where
  "GetByFilter_request status beginTime endTime =
     JObject (omitempty ''status'' status @ omitempty ''begintime'' beginTime
              @ omitempty ''endtime'' endTime)"

definition Close_request :: "string \<Rightarrow> jval" where
  "Close_request orderId = JObject [(''order_id'', JString orderId)]"

definition SetDelivery_request :: "string \<Rightarrow> string \<Rightarrow> string \<Rightarrow> jval" where
  "SetDelivery_request orderId deliveryCompany deliveryTrackNo =
     JObject [(''order_id'', JString orderId), (''delivery_company'', JString deliveryCompany),
              (''delivery_track_no'', JString deliveryTrackNo)]"

text \<open>The JSON names of the fields of the two result structs with a payload.\<close>

definition GetById_result_tags :: "string list" where
  "GetById_result_tags = [''errcode'', ''errmsg'', ''order'']"

definition GetByFilter_result_tags :: "string list" where
  "GetByFilter_result_tags = [''errcode'', ''errmsg'', ''order_list'']"

text \<open>The member names of a JSON object, in order.\<close>

definition member_names :: "jval \<Rightarrow> string list" where
  "member_names v = (case v of JObject kvs \<Rightarrow> map fst kvs | _ \<Rightarrow> [])"

text \<open>\<open>MerchantOrderGetById\<close>, lines 13 to 39.\<close>

definition MerchantOrderGetById ::
  "env \<Rightarrow> string \<Rightarrow> trace \<Rightarrow> (Order option \<times> goerror option) \<times> trace" where
  "MerchantOrderGetById c orderId tr =
     (case Token c of
        Inl err \<Rightarrow> ((None, Some err), tr @ [EvToken])
      | Inr token \<Rightarrow>
          let url = merchantOrderGetByIdURL c token in
          (case postJSON c url (GetById_request orderId) GetById_result_tags
                  (tr @ [EvToken]) of
             (Inl err, tr') \<Rightarrow> ((None, Some err), tr')
           | (Inr result, tr') \<Rightarrow>
               if int_field result ''errcode'' \<noteq> 0
               then ((None, Some (RemoteError (result_Error result))), tr')
               else ((Some (order_field result ''order''), None), tr')))"

text \<open>\<open>MerchantOrderGetByFilter\<close>, lines 45 to 76.\<close>

definition MerchantOrderGetByFilter ::
  "env \<Rightarrow> int \<Rightarrow> int \<Rightarrow> int \<Rightarrow> trace \<Rightarrow> (Order list option \<times> goerror option) \<times> trace" where
  "MerchantOrderGetByFilter c status beginTime endTime tr =
     (case Token c of
        Inl err \<Rightarrow> ((None, Some err), tr @ [EvToken])
      | Inr token \<Rightarrow>
          let url = merchantOrderGetByFilterURL c token in
          (case postJSON c url (GetByFilter_request status beginTime endTime)
                  GetByFilter_result_tags (tr @ [EvToken]) of
             (Inl err, tr') \<Rightarrow> ((None, Some err), tr')
           | (Inr result, tr') \<Rightarrow>
               if int_field result ''errcode'' \<noteq> 0
               then ((None, Some (RemoteError (result_Error result))), tr')
               else ((Some (list_field result ''order_list''), None), tr')))"

text \<open>Lines 99 to 108 and 125 to 134: the same steps in both operations.\<close>

definition error_result :: "(goerror + jfields) \<times> trace \<Rightarrow> goerror option \<times> trace" where
  "error_result r =
     (case r of
        (Inl err, tr') \<Rightarrow> (Some err, tr')
      | (Inr result, tr') \<Rightarrow>
          if int_field result ''errcode'' \<noteq> 0
          then (Some (RemoteError (result_Error result)), tr')
          else (None, tr'))"

text \<open>\<open>MerchantOrderSetDelivery\<close>, lines 82 to 109.\<close>

definition MerchantOrderSetDelivery ::
  "env \<Rightarrow> string \<Rightarrow> string \<Rightarrow> string \<Rightarrow> trace \<Rightarrow> goerror option \<times> trace" where
  "MerchantOrderSetDelivery c orderId deliveryCompany deliveryTrackNo tr =
     (case Token c of
        Inl err \<Rightarrow> (Some err, tr @ [EvToken])
      | Inr token \<Rightarrow>
          let url = merchantOrderSetDeliveryURL c token in
          error_result
            (postJSON c url (SetDelivery_request orderId deliveryCompany deliveryTrackNo)
               Error_tags (tr @ [EvToken])))"

text \<open>\<open>MerchantOrderClose\<close>, lines 112 to 135.\<close>

definition MerchantOrderClose :: "env \<Rightarrow> string \<Rightarrow> trace \<Rightarrow> goerror option \<times> trace" where
  "MerchantOrderClose c orderId tr =
     (case Token c of
        Inl err \<Rightarrow> (Some err, tr @ [EvToken])
      | Inr token \<Rightarrow>
          let url = merchantOrderCloseURL c token in
          error_result (postJSON c url (Close_request orderId) Error_tags (tr @ [EvToken])))"

section \<open>A fake client for concrete runs\<close>

text \<open>
  A response with a status, a \<open>Content-Type\<close> header and a body that is read without
  error.
\<close>

definition fake_response :: "int \<Rightarrow> string \<Rightarrow> string \<Rightarrow> bytes \<Rightarrow> Response" where
  "fake_response code status ctype body =
     \<lparr>StatusCode = code, Status = status,
      Header = (\<lambda>k. if k = ''Content-Type'' then ctype else []),
      Body = \<lparr>rdata = body, rerr = None\<rparr>\<rparr>"

text \<open>An in-memory sink that never fails, and a file that reads without error.\<close>

definition memory_sink :: writer where
  "memory_sink = \<lparr>written = [], wlimit = None\<rparr>"

definition data_file :: reader where
  "data_file = \<lparr>rdata = ''data'', rerr = None\<rparr>"

text \<open>A stand-in for the JSON encoder: it writes the member names of an object.\<close>

fun fake_encode :: "jval \<Rightarrow> bytes" where
  "fake_encode (JObject kvs) = ''{'' @ concat (map (\<lambda>kv. fst kv @ '','') kvs) @ ''}''"
| "fake_encode v = ''?''"

text \<open>
  A client whose token is \<open>TOKEN\<close>, whose transport answers every request with \<open>resp\<close>
  and whose JSON decoder finds the document \<open>doc\<close> in every body, setting the fields that
  the destination has.
\<close>

definition fake_env :: "Response \<Rightarrow> goerror + jfields \<Rightarrow> env" where
  "fake_env resp doc =
     \<lparr>Token = Inr ''TOKEN'',
      httpClient_Post = (\<lambda>url ctype body. Inr resp),
      httpClient_Get = (\<lambda>url. Inr resp),
      mediaUploadURL = (\<lambda>token mediaType. ''upload?'' @ token @ ''&'' @ mediaType),
      mediaDownloadURL = (\<lambda>token mediaId. ''get?'' @ token @ ''&'' @ mediaId),
      mediaUploadNewsURL = (\<lambda>token. ''uploadnews?'' @ token),
      mediaUploadVideoURL = (\<lambda>token. ''uploadvideo?'' @ token),
      merchantOrderGetByIdURL = (\<lambda>token. ''getbyid?'' @ token),
      merchantOrderGetByFilterURL = (\<lambda>token. ''getbyfilter?'' @ token),
      merchantOrderSetDeliveryURL = (\<lambda>token. ''setdelivery?'' @ token),
      merchantOrderCloseURL = (\<lambda>token. ''close?'' @ token),
      multipart_CreateFormFile = (\<lambda>fieldname filename. Inr (''[''  @ fieldname @ '':'' @ filename @ '']'')),
      multipart_FormDataContentType = ''multipart/form-data'',
      multipart_Close = Inr ''[end]'',
      mime_ParseMediaType = takeWhile (\<lambda>ch. ch \<noteq> CHR '';''),
      json_Decode = (\<lambda>tags r. case doc of Inl err \<Rightarrow> Inl err
                                 | Inr kvs \<Rightarrow> Inr (filter (\<lambda>kv. fst kv \<in> set tags) kvs)),
      json_Encode = (\<lambda>v. Inr (fake_encode v)),
      jsonContentType = ''application/json'',
      os_Open = (\<lambda>path. Inr data_file),
      os_Create = (\<lambda>path. Inr memory_sink),
      filepath_Base = (\<lambda>path. path)\<rparr>"

text \<open>Concrete values for the runs below.\<close>

definition ok_response :: Response where
  \<open>ok_response = fake_response 200 ''200 OK'' ''application/json'' ''{"order":{"order_id":"7"}}''\<close>

definition order_doc :: jfields where
  "order_doc = [(''order'', JObject [(''order_id'', JString ''7'')])]"

definition both_ids_doc :: jfields where
  "both_ids_doc = [(''type'', JString ''thumb''), (''media_id'', JString ''M''),
                   (''thumb_media_id'', JString ''T''), (''created_at'', JInt 5)]"

definition octet_response :: Response where
  "octet_response = fake_response 200 ''200 OK'' ''application/octet-stream'' ''BYTES''"

text \<open>A sink that accepts two more bytes and then fails.\<close>

definition full_disk :: writer where
  "full_disk = \<lparr>written = [], wlimit = Some (2, Foreign ''no space left on device'')\<rparr>"

definition invalid_media_response :: Response where
  \<open>invalid_media_response =
     fake_response 200 ''200 OK'' ''application/json''
       ''{"errcode":40007,"errmsg":"invalid media_id"}''\<close>

definition invalid_media_doc :: jfields where
  "invalid_media_doc = [(''errcode'', JInt 40007), (''errmsg'', JString ''invalid media_id'')]"

definition zero_code_response :: Response where
  \<open>zero_code_response =
     fake_response 200 ''200 OK'' ''text/plain; charset=utf-8'' ''{"errcode":0,"errmsg":"ok"}''\<close>

definition zero_code_doc :: jfields where
  "zero_code_doc = [(''errcode'', JInt 0), (''errmsg'', JString ''ok'')]"

definition error_500 :: Response where
  "error_500 = fake_response 500 ''500 Internal Server Error'' ''text/html'' ''server error''"

definition remote_error_doc :: jfields where
  "remote_error_doc = [(''errcode'', JInt 40001), (''errmsg'', JString ''invalid credential''),
                       (''media_id'', JString ''M''), (''thumb_media_id'', JString ''T''),
                       (''order'', JObject [(''order_id'', JString ''7'')]),
                       (''order_list'', JArray [JObject [(''order_id'', JString ''7'')]])]"

definition success_doc :: jfields where
  "success_doc = [(''errcode'', JInt 0), (''type'', JString ''image''),
                  (''media_id'', JString ''M''), (''created_at'', JInt 5),
                  (''order'', JObject [(''order_id'', JString ''7'')]),
                  (''order_list'', JArray [JObject [(''order_id'', JString ''7'')],
                                           JObject [(''order_id'', JString ''8'')]])]"

text \<open>Clients whose multipart writer cannot be closed and whose transport fails.\<close>

definition failing_close_env :: env where
  "failing_close_env =
     (fake_env ok_response (Inr success_doc))\<lparr>multipart_Close := Inl (Foreign ''short write'')\<rparr>"

definition failing_post_env :: env where
  "failing_post_env =
     (fake_env ok_response (Inr success_doc))
       \<lparr>httpClient_Post := (\<lambda>url ctype body. Inl (Foreign ''connection refused''))\<rparr>"

section \<open>The fake client, evaluated\<close>

lemma fake_env_simps:
  "Token (fake_env resp doc) = Inr ''TOKEN''"
  "httpClient_Post (fake_env resp doc) url ctype body = Inr resp"
  "httpClient_Get (fake_env resp doc) url = Inr resp"
  "json_Decode (fake_env resp (Inr kvs)) tags r = Inr (filter (\<lambda>kv. fst kv \<in> set tags) kvs)"
  "json_Decode (fake_env resp (Inl e)) tags r = Inl e"
  "json_Encode (fake_env resp doc) v = Inr (fake_encode v)"
  "jsonContentType (fake_env resp doc) = ''application/json''"
  "os_Open (fake_env resp doc) path = Inr data_file"
  "os_Create (fake_env resp doc) path = Inr memory_sink"
  "filepath_Base (fake_env resp doc) path = path"
  "mime_ParseMediaType (fake_env resp doc) = takeWhile (\<lambda>ch. ch \<noteq> CHR '';'')"
  "mediaDownloadURL (fake_env resp doc) token mediaId = ''get?'' @ token @ ''&'' @ mediaId"
  "mediaUploadURL (fake_env resp doc) token mediaType = ''upload?'' @ token @ ''&'' @ mediaType"
  "mediaUploadNewsURL (fake_env resp doc) token = ''uploadnews?'' @ token"
  "mediaUploadVideoURL (fake_env resp doc) token = ''uploadvideo?'' @ token"
  "merchantOrderGetByIdURL (fake_env resp doc) token = ''getbyid?'' @ token"
  "merchantOrderGetByFilterURL (fake_env resp doc) token = ''getbyfilter?'' @ token"
  "merchantOrderSetDeliveryURL (fake_env resp doc) token = ''setdelivery?'' @ token"
  "merchantOrderCloseURL (fake_env resp doc) token = ''close?'' @ token"
  "multipart_CreateFormFile (fake_env resp doc) fieldname filename
     = Inr (''['' @ fieldname @ '':'' @ filename @ '']'')"
  "multipart_FormDataContentType (fake_env resp doc) = ''multipart/form-data''"
  "multipart_Close (fake_env resp doc) = Inr ''[end]''"
  by (simp_all add: fake_env_def)

lemma fake_response_simps:
  "StatusCode (fake_response code status ctype body) = code"
  "Status (fake_response code status ctype body) = status"
  "Header (fake_response code status ctype body) ''Content-Type'' = ctype"
  "Body (fake_response code status ctype body) = \<lparr>rdata = body, rerr = None\<rparr>"
  by (simp_all add: fake_response_def)

lemmas run_defs = MediaUpload_def MediaUpload_pooled_def MediaUpload_response_def
  MediaUpload_decode_def MediaUploadNews_def MediaUploadVideo_def upload_result_def
  postJSON_def MerchantOrderGetById_def MerchantOrderGetByFilter_def GetById_request_def
  GetByFilter_request_def omitempty_def fake_env_simps fake_response_simps data_file_def
  io_Copy_def http_StatusOK_def int_field_def str_field_def order_field_def list_field_def
  result_UploadResponse_def result_Error_def thumb_result_tags_def upload_result_tags_def
  GetById_result_tags_def GetByFilter_result_tags_def
  MEDIA_TYPE_IMAGE_def MEDIA_TYPE_VOICE_def MEDIA_TYPE_VIDEO_def MEDIA_TYPE_THUMB_def

section \<open>Preconditions\<close>










section \<open>Successful uploads\<close>

text \<open>
  What a call of \<open>MediaUpload\<close> that returns a result or no error has gone through,
  step by step.
\<close>

lemma MediaUpload_decode_inv:
  assumes "MediaUpload_decode c mediaType resp tr = ((ret, err), tr')"
    and "ret \<noteq> None \<or> err = None"
  shows "\<exists>result.
           json_Decode c (if mediaType = MEDIA_TYPE_THUMB then thumb_result_tags
                          else upload_result_tags) (Body resp) = Inr result
         \<and> int_field result ''errcode'' = 0
         \<and> ret = Some \<lparr>MediaType = str_field result ''type'',
                        MediaId = str_field result
                          (if mediaType = MEDIA_TYPE_THUMB then ''thumb_media_id'' else ''media_id''),
                        CreatedAt = int_field result ''created_at''\<rparr>
         \<and> err = None \<and> tr' = tr @ [EvDecode]"
  using assms
  by (auto simp: MediaUpload_decode_def result_UploadResponse_def split: if_splits sum.splits)

lemma MediaUpload_response_inv:
  assumes "MediaUpload_response c mediaType resp tr = ((ret, err), tr')"
    and "ret \<noteq> None \<or> err = None"
  shows "StatusCode resp = http_StatusOK
         \<and> MediaUpload_decode c mediaType resp tr = ((ret, err), tr')"
  using assms by (auto simp: MediaUpload_response_def split: if_splits)

lemma MediaUpload_pooled_inv:
  assumes "MediaUpload_pooled c token mediaType filename rd tr = ((ret, err), tr')"
    and "ret \<noteq> None \<or> err = None"
  shows "\<exists>header trailer resp tr''.
           multipart_CreateFormFile c ''file'' filename = Inr header
         \<and> rerr rd = None
         \<and> multipart_Close c = Inr trailer
         \<and> httpClient_Post c (mediaUploadURL c token mediaType) (multipart_FormDataContentType c)
              (header @ rdata rd @ trailer) = Inr resp
         \<and> MediaUpload_response c mediaType resp
              (tr @ [EvPost (mediaUploadURL c token mediaType) (multipart_FormDataContentType c)
                       (header @ rdata rd @ trailer)]) = ((ret, err), tr'')
         \<and> tr' = tr'' @ [EvBodyClose]"
  using assms
  by (auto simp: MediaUpload_pooled_def io_Copy_def Let_def
           split: sum.splits option.splits prod.splits)

lemma MediaUpload_inv:
  assumes "MediaUpload c mediaType filename mediaReader tr = ((ret, err), tr')"
    and "ret \<noteq> None \<or> err = None"
  shows "\<exists>rd token tr''.
           mediaType \<in> {MEDIA_TYPE_IMAGE, MEDIA_TYPE_VOICE, MEDIA_TYPE_VIDEO, MEDIA_TYPE_THUMB}
         \<and> filename \<noteq> [] \<and> mediaReader = Some rd \<and> Token c = Inr token
         \<and> MediaUpload_pooled c token mediaType filename rd (tr @ [EvToken, EvPoolGet])
             = ((ret, err), tr'')
         \<and> tr' = tr'' @ [EvPoolPut]"
  using assms
  by (auto simp: MediaUpload_def split: if_splits sum.splits option.splits prod.splits)

text \<open>
  C2. A call of \<open>MediaUpload\<close> that returns no error returns a result whose \<open>MediaId\<close>
  is the field that the decoder has set from the posted request's response under the
  JSON name \<open>thumb_media_id\<close> when the media type is thumb, and under \<open>media_id\<close> for
  every other media type (the destination struct of the thumb branch has no field
  named \<open>media_id\<close>, that of the other branch none named \<open>thumb_media_id\<close>). Both end up
  in the field \<open>MediaId\<close> of the same \<open>UploadResponse\<close>.
\<close>

theorem upload_media_id_field:
  assumes "MediaUpload c mediaType filename mediaReader tr = ((ret, None), tr')"
  shows "\<exists>url ctype body resp result r.
           httpClient_Post c url ctype body = Inr resp
         \<and> json_Decode c (if mediaType = MEDIA_TYPE_THUMB then thumb_result_tags
                          else upload_result_tags) (Body resp) = Inr result
         \<and> ret = Some r
         \<and> MediaId r = str_field result
             (if mediaType = MEDIA_TYPE_THUMB then ''thumb_media_id'' else ''media_id'')"
proof -
  from MediaUpload_inv [OF assms] obtain rd token tr1 where
    p: "MediaUpload_pooled c token mediaType filename rd (tr @ [EvToken, EvPoolGet])
          = ((ret, None), tr1)"
    by auto
  from MediaUpload_pooled_inv [OF p] obtain url ctype body resp tr0 tr2 where
    post: "httpClient_Post c url ctype body = Inr resp"
    and r: "MediaUpload_response c mediaType resp tr0 = ((ret, None), tr2)"
    by auto
  from MediaUpload_response_inv [OF r]
  have d: "MediaUpload_decode c mediaType resp tr0 = ((ret, None), tr2)"
    by simp
  from MediaUpload_decode_inv [OF d] post show ?thesis
    by fastforce
qed

theorem upload_media_id_field_witness:
  \<open>MediaUpload (fake_env ok_response (Inr both_ids_doc)) ''thumb'' ''a.jpg'' (Some data_file) []
     = ((Some \<lparr>MediaType = ''thumb'', MediaId = ''T'', CreatedAt = 5\<rparr>, None),
        [EvToken, EvPoolGet,
         EvPost ''upload?TOKEN&thumb'' ''multipart/form-data'' ''[file:a.jpg]data[end]'',
         EvDecode, EvBodyClose, EvPoolPut])
   \<and> (\<exists>result.
         json_Decode (fake_env ok_response (Inr both_ids_doc)) thumb_result_tags (Body ok_response)
           = Inr result
       \<and> str_field result ''thumb_media_id'' = ''T'')
   \<and> MediaUpload (fake_env ok_response (Inr both_ids_doc)) ''image'' ''a.jpg'' (Some data_file) []
     = ((Some \<lparr>MediaType = ''thumb'', MediaId = ''M'', CreatedAt = 5\<rparr>, None),
        [EvToken, EvPoolGet,
         EvPost ''upload?TOKEN&image'' ''multipart/form-data'' ''[file:a.jpg]data[end]'',
         EvDecode, EvBodyClose, EvPoolPut])
   \<and> (\<exists>result.
         json_Decode (fake_env ok_response (Inr both_ids_doc)) upload_result_tags (Body ok_response)
           = Inr result
       \<and> str_field result ''media_id'' = ''M'')\<close>
proof -
  have thumb: \<open>MediaUpload (fake_env ok_response (Inr both_ids_doc)) ''thumb'' ''a.jpg''
               (Some data_file) []
     = ((Some \<lparr>MediaType = ''thumb'', MediaId = ''T'', CreatedAt = 5\<rparr>, None),
        [EvToken, EvPoolGet,
         EvPost ''upload?TOKEN&thumb'' ''multipart/form-data'' ''[file:a.jpg]data[end]'',
         EvDecode, EvBodyClose, EvPoolPut])\<close>
    by (simp add: run_defs ok_response_def both_ids_doc_def)
  have image: \<open>MediaUpload (fake_env ok_response (Inr both_ids_doc)) ''image'' ''a.jpg''
               (Some data_file) []
     = ((Some \<lparr>MediaType = ''thumb'', MediaId = ''M'', CreatedAt = 5\<rparr>, None),
        [EvToken, EvPoolGet,
         EvPost ''upload?TOKEN&image'' ''multipart/form-data'' ''[file:a.jpg]data[end]'',
         EvDecode, EvBodyClose, EvPoolPut])\<close>
    by (simp add: run_defs ok_response_def both_ids_doc_def)
  from upload_media_id_field [OF thumb] thumb
  have t: \<open>\<exists>result.
         json_Decode (fake_env ok_response (Inr both_ids_doc)) thumb_result_tags (Body ok_response)
           = Inr result
       \<and> str_field result ''thumb_media_id'' = ''T''\<close>
    by (auto simp: MEDIA_TYPE_THUMB_def fake_env_simps)
  from upload_media_id_field [OF image] image
  have i: \<open>\<exists>result.
         json_Decode (fake_env ok_response (Inr both_ids_doc)) upload_result_tags (Body ok_response)
           = Inr result
       \<and> str_field result ''media_id'' = ''M''\<close>
    by (auto simp: MEDIA_TYPE_THUMB_def fake_env_simps)
  from thumb image t i show ?thesis by blast
qed

section \<open>Downloads\<close>

lemma MediaDownload_reaches_response:
  assumes "mediaId \<noteq> []" and "Token c = Inr token"
    and "httpClient_Get c (mediaDownloadURL c token mediaId) = Inr resp"
  shows "MediaDownload c mediaId (Some w) tr =
           (case MediaDownload_response c resp w
                   (tr @ [EvToken, EvGet (mediaDownloadURL c token mediaId)]) of
              (err, w', tr') \<Rightarrow> (err, Some w', tr' @ [EvBodyClose]))"
  using assms by (simp add: MediaDownload_def)

text \<open>
  C3, as amended. When the response has status 200 and its parsed content type is
  neither \<open>text/plain\<close> nor \<open>application/json\<close>, \<open>MediaDownload\<close> copies the response body
  to the sink and returns what \<open>io.Copy\<close> returns: when the copy succeeds, exactly the
  bytes of the body have been appended to the sink and the call returns no error (so it
  is for a sink that never fails and a body that is read without error); when the copy
  fails, the call returns the copy's error.
\<close>

theorem download_copies_body:
  assumes "mediaId \<noteq> []" and "Token c = Inr token"
    and "httpClient_Get c (mediaDownloadURL c token mediaId) = Inr resp"
    and "StatusCode resp = 200"
    and "mime_ParseMediaType c (Header resp ''Content-Type'') \<noteq> ''text/plain''"
    and "mime_ParseMediaType c (Header resp ''Content-Type'') \<noteq> ''application/json''"
  shows "MediaDownload c mediaId (Some w) tr =
           (snd (io_Copy w (Body resp)), Some (fst (io_Copy w (Body resp))),
            tr @ [EvToken, EvGet (mediaDownloadURL c token mediaId), EvBodyClose])
         \<and> (snd (io_Copy w (Body resp)) = None \<longrightarrow>
              written (fst (io_Copy w (Body resp))) = written w @ rdata (Body resp))
         \<and> (wlimit w = None \<and> rerr (Body resp) = None \<longrightarrow>
              snd (io_Copy w (Body resp)) = None)"
proof -
  have "MediaDownload_response c resp w tr0 =
          (snd (io_Copy w (Body resp)), fst (io_Copy w (Body resp)), tr0)" for tr0
    using assms(4-6) by (simp add: MediaDownload_response_def http_StatusOK_def split: prod.splits)
  then have "MediaDownload c mediaId (Some w) tr =
           (snd (io_Copy w (Body resp)), Some (fst (io_Copy w (Body resp))),
            tr @ [EvToken, EvGet (mediaDownloadURL c token mediaId), EvBodyClose])"
    by (simp add: MediaDownload_reaches_response [OF assms(1-3)])
  moreover have "snd (io_Copy w (Body resp)) = None \<longrightarrow>
              written (fst (io_Copy w (Body resp))) = written w @ rdata (Body resp)"
    by (auto simp: io_Copy_def split: option.splits prod.splits if_splits)
  moreover have "wlimit w = None \<and> rerr (Body resp) = None \<longrightarrow>
              snd (io_Copy w (Body resp)) = None"
    by (simp add: io_Copy_def)
  ultimately show ?thesis by blast
qed

theorem download_copies_body_witness:
  "MediaDownload (fake_env octet_response (Inr [])) ''m1'' (Some memory_sink) []
     = (None, Some \<lparr>written = ''BYTES'', wlimit = None\<rparr>,
        [EvToken, EvGet ''get?TOKEN&m1'', EvBodyClose])"
proof -
  have "mime_ParseMediaType (fake_env octet_response (Inr []))
          (Header octet_response ''Content-Type'') = ''application/octet-stream''"
    by (simp add: fake_env_simps octet_response_def fake_response_simps)
  then show ?thesis
    using download_copies_body [where c = "fake_env octet_response (Inr [])" and mediaId = "''m1''"
        and token = "''TOKEN''" and resp = octet_response and w = memory_sink and tr = "[]"]
    by (simp add: fake_env_simps octet_response_def fake_response_simps io_Copy_def
          memory_sink_def)
qed

text \<open>
  C3 as stated fails when the sink fails: with status 200, content type
  \<open>application/octet-stream\<close> and the body \<open>BYTES\<close>, a sink that accepts two bytes only
  makes the call return the sink's error, with \<open>BY\<close> written.
\<close>

theorem download_failing_sink_counterexample:
  "MediaDownload (fake_env octet_response (Inr [])) ''m1'' (Some full_disk) []
     = (Some (Foreign ''no space left on device''),
        Some \<lparr>written = ''BY'', wlimit = Some (0, Foreign ''no space left on device'')\<rparr>,
        [EvToken, EvGet ''get?TOKEN&m1'', EvBodyClose])"
  by (simp add: MediaDownload_def MediaDownload_response_def fake_env_simps octet_response_def
        fake_response_simps io_Copy_def full_disk_def http_StatusOK_def)

text \<open>
  C4. When the response has status 200 and content type \<open>application/json\<close> and its
  body decodes as an error envelope with code \<open>code\<close> and message \<open>msg\<close>,
  \<open>MediaDownload\<close> returns the error value that carries exactly this code and this
  message, and the sink is as it was: nothing has been written.
\<close>

theorem download_error_envelope:
  assumes "mediaId \<noteq> []" and "Token c = Inr token"
    and "httpClient_Get c (mediaDownloadURL c token mediaId) = Inr resp"
    and "StatusCode resp = 200"
    and "mime_ParseMediaType c (Header resp ''Content-Type'') = ''application/json''"
    and "json_Decode c Error_tags (Body resp) = Inr result"
    and "int_field result ''errcode'' = code" and "str_field result ''errmsg'' = msg"
  shows "MediaDownload c mediaId (Some w) tr =
           (Some (RemoteError \<lparr>ErrCode = code, ErrMsg = msg\<rparr>), Some w,
            tr @ [EvToken, EvGet (mediaDownloadURL c token mediaId), EvDecode, EvBodyClose])"
  using assms(4-8)
  by (simp add: MediaDownload_reaches_response [OF assms(1-3)] MediaDownload_response_def
        http_StatusOK_def result_Error_def)

theorem download_error_envelope_witness:
  "MediaDownload (fake_env invalid_media_response (Inr invalid_media_doc)) ''m1''
     (Some memory_sink) []
     = (Some (RemoteError \<lparr>ErrCode = 40007, ErrMsg = ''invalid media_id''\<rparr>), Some memory_sink,
        [EvToken, EvGet ''get?TOKEN&m1'', EvDecode, EvBodyClose])"
  using download_error_envelope
    [where c = "fake_env invalid_media_response (Inr invalid_media_doc)" and mediaId = "''m1''"
       and token = "''TOKEN''" and resp = invalid_media_response and w = memory_sink
       and tr = "[]" and result = invalid_media_doc and code = 40007
       and msg = "''invalid media_id''"]
  by (simp add: fake_env_simps invalid_media_response_def fake_response_simps
        invalid_media_doc_def Error_tags_def int_field_def str_field_def)

text \<open>
  C10. When the response has status 200 and content type \<open>text/plain\<close> or
  \<open>application/json\<close>, \<open>MediaDownload\<close> returns a non-nil error and leaves the sink as it
  was; when the body decodes as an error envelope, the error is that envelope, whatever
  its code, also the code 0.
\<close>

theorem download_text_or_json_always_fails:
  assumes "mediaId \<noteq> []" and "Token c = Inr token"
    and "httpClient_Get c (mediaDownloadURL c token mediaId) = Inr resp"
    and "StatusCode resp = 200"
    and "mime_ParseMediaType c (Header resp ''Content-Type'') = ''text/plain''
         \<or> mime_ParseMediaType c (Header resp ''Content-Type'') = ''application/json''"
  shows "fst (MediaDownload c mediaId (Some w) tr) \<noteq> None
         \<and> fst (snd (MediaDownload c mediaId (Some w) tr)) = Some w
         \<and> (json_Decode c Error_tags (Body resp) = Inr result \<longrightarrow>
              fst (MediaDownload c mediaId (Some w) tr) = Some (RemoteError (result_Error result)))"
  using assms(4-5)
  by (auto simp: MediaDownload_reaches_response [OF assms(1-3)] MediaDownload_response_def
        http_StatusOK_def split: sum.splits)

theorem download_text_or_json_always_fails_witness:
  "MediaDownload (fake_env zero_code_response (Inr zero_code_doc)) ''m1'' (Some memory_sink) []
     = (Some (RemoteError \<lparr>ErrCode = 0, ErrMsg = ''ok''\<rparr>), Some memory_sink,
        [EvToken, EvGet ''get?TOKEN&m1'', EvDecode, EvBodyClose])
   \<and> fst (MediaDownload (fake_env zero_code_response (Inr zero_code_doc)) ''m1''
            (Some memory_sink) []) \<noteq> None"
proof -
  have run: "MediaDownload (fake_env zero_code_response (Inr zero_code_doc)) ''m1''
               (Some memory_sink) []
     = (Some (RemoteError \<lparr>ErrCode = 0, ErrMsg = ''ok''\<rparr>), Some memory_sink,
        [EvToken, EvGet ''get?TOKEN&m1'', EvDecode, EvBodyClose])"
    by (simp add: MediaDownload_def MediaDownload_response_def fake_env_simps
          zero_code_response_def fake_response_simps zero_code_doc_def Error_tags_def
          int_field_def str_field_def result_Error_def http_StatusOK_def)
  have ct: "mime_ParseMediaType (fake_env zero_code_response (Inr zero_code_doc))
              (Header zero_code_response ''Content-Type'') = ''text/plain''"
    by (simp add: fake_env_simps zero_code_response_def fake_response_simps)
  from download_text_or_json_always_fails
    [where c = "fake_env zero_code_response (Inr zero_code_doc)" and mediaId = "''m1''"
       and token = "''TOKEN''" and resp = zero_code_response and w = memory_sink and tr = "[]"]
    ct run
  show ?thesis
    by (simp add: fake_env_simps zero_code_response_def fake_response_simps)
qed

section \<open>Requests through the JSON POST helper\<close>

lemma postJSON_status:
  assumes "json_Encode c request = Inr body"
    and "httpClient_Post c url (jsonContentType c) body = Inr resp"
    and "StatusCode resp \<noteq> 200"
  shows "postJSON c url request tags tr =
           (Inl (FmtErrorf (''http.Status: '' @ Status resp)),
            tr @ [EvPost url (jsonContentType c) body, EvBodyClose])"
  using assms by (simp add: postJSON_def http_StatusOK_def)

lemma postJSON_decodes:
  assumes "json_Encode c request = Inr body"
    and "httpClient_Post c url (jsonContentType c) body = Inr resp"
    and "StatusCode resp = 200"
  shows "postJSON c url request tags tr =
           (json_Decode c tags (Body resp),
            tr @ [EvPost url (jsonContentType c) body, EvDecode, EvBodyClose])"
  using assms by (simp add: postJSON_def http_StatusOK_def)

lemma postJSON_inv:
  assumes "postJSON c url request tags tr = (Inr result, tr')"
  shows "\<exists>body resp. json_Encode c request = Inr body
           \<and> httpClient_Post c url (jsonContentType c) body = Inr resp
           \<and> StatusCode resp = 200
           \<and> json_Decode c tags (Body resp) = Inr result"
  using assms by (auto simp: postJSON_def http_StatusOK_def split: sum.splits if_splits)

text \<open>
  C5. The request of \<open>MerchantOrderGetByFilter\<close> has the member \<open>status\<close> exactly when
  \<open>status\<close> is not 0, \<open>begintime\<close> exactly when \<open>beginTime\<close> is not 0 and \<open>endtime\<close>
  exactly when \<open>endTime\<close> is not 0, in this order; with all three 0 it is the empty
  object. This request, encoded, is the body of the POST that the operation sends.
\<close>

theorem filter_request_omits_zero_fields:
  "GetByFilter_request 0 0 0 = JObject []
   \<and> member_names (GetByFilter_request status beginTime endTime) =
        (if status \<noteq> 0 then [''status''] else [])
        @ (if beginTime \<noteq> 0 then [''begintime''] else [])
        @ (if endTime \<noteq> 0 then [''endtime''] else [])
   \<and> (Token c = Inr token
        \<and> json_Encode c (GetByFilter_request status beginTime endTime) = Inr body \<longrightarrow>
      (\<exists>evs. snd (MerchantOrderGetByFilter c status beginTime endTime tr) =
               tr @ [EvToken, EvPost (merchantOrderGetByFilterURL c token) (jsonContentType c) body]
               @ evs))"
  by (auto simp: GetByFilter_request_def omitempty_def member_names_def
        MerchantOrderGetByFilter_def postJSON_def Let_def split: sum.splits prod.splits)

theorem filter_request_omits_zero_fields_witness:
  "snd (MerchantOrderGetByFilter (fake_env ok_response (Inr order_doc)) 0 0 0 [])
     = [EvToken, EvPost ''getbyfilter?TOKEN'' ''application/json'' ''{}'', EvDecode, EvBodyClose]
   \<and> member_names (GetByFilter_request 2 0 1400000000) = [''status'', ''endtime'']"
proof -
  have run: "snd (MerchantOrderGetByFilter (fake_env ok_response (Inr order_doc)) 0 0 0 [])
     = [EvToken, EvPost ''getbyfilter?TOKEN'' ''application/json'' ''{}'', EvDecode, EvBodyClose]"
    by (simp add: MerchantOrderGetByFilter_def postJSON_def fake_env_simps ok_response_def
          fake_response_simps GetByFilter_request_def omitempty_def http_StatusOK_def
          order_doc_def GetByFilter_result_tags_def int_field_def split: prod.splits)
  from filter_request_omits_zero_fields
    [where c = "fake_env ok_response (Inr order_doc)" and status = 0 and beginTime = 0
       and endTime = 0 and token = "''TOKEN''" and body = "''{}''" and tr = "[]"]
    filter_request_omits_zero_fields
    [where c = "fake_env ok_response (Inr order_doc)" and status = 2 and beginTime = 0
       and endTime = 1400000000]
    run
  show ?thesis
    by (simp add: fake_env_simps)
qed

section \<open>The buffer pool\<close>

lemma MediaUpload_pooled_no_pool_events:
  "\<exists>evs. snd (MediaUpload_pooled c token mediaType filename rd tr) = tr @ evs
         \<and> pool_events evs = []"
  by (auto simp: MediaUpload_pooled_def MediaUpload_response_def MediaUpload_decode_def
        pool_events_def Let_def
        split: sum.splits option.splits prod.splits if_splits)

text \<open>
  C8. Whatever its arguments and whatever the collaborators answer, the events that a
  call of \<open>MediaUpload\<close> adds to the trace contain either no buffer pool event (the call
  returned before line 61) or exactly one \<open>getBufferFromPool\<close> followed by exactly one
  \<open>putBufferToPool\<close>, which is the last event of the call: every exit after the
  acquisition returns the buffer.
\<close>

theorem upload_returns_pooled_buffer:
  "\<exists>evs. snd (MediaUpload c mediaType filename mediaReader tr) = tr @ evs
         \<and> (pool_events evs = []
            \<or> pool_events evs = [EvPoolGet, EvPoolPut] \<and> last evs = EvPoolPut)"
proof (cases "\<exists>rd token.
           mediaType \<in> {MEDIA_TYPE_IMAGE, MEDIA_TYPE_VOICE, MEDIA_TYPE_VIDEO, MEDIA_TYPE_THUMB}
         \<and> filename \<noteq> [] \<and> mediaReader = Some rd \<and> Token c = Inr token")
  case True
  then obtain rd token where
    a: "mediaType \<in> {MEDIA_TYPE_IMAGE, MEDIA_TYPE_VOICE, MEDIA_TYPE_VIDEO, MEDIA_TYPE_THUMB}"
       "filename \<noteq> []" "mediaReader = Some rd" "Token c = Inr token"
    by blast
  from MediaUpload_pooled_no_pool_events [of c token mediaType filename rd "tr @ [EvToken, EvPoolGet]"]
  obtain evs where
    e: "snd (MediaUpload_pooled c token mediaType filename rd (tr @ [EvToken, EvPoolGet]))
          = (tr @ [EvToken, EvPoolGet]) @ evs" "pool_events evs = []"
    by blast
  from a e(1) have "snd (MediaUpload c mediaType filename mediaReader tr)
                   = tr @ ([EvToken, EvPoolGet] @ evs @ [EvPoolPut])"
    by (auto simp: MediaUpload_def split: prod.splits)
  moreover from e(2) have "pool_events ([EvToken, EvPoolGet] @ evs @ [EvPoolPut])
                             = [EvPoolGet, EvPoolPut]"
    by (simp add: pool_events_def)
  moreover have "last ([EvToken, EvPoolGet] @ evs @ [EvPoolPut]) = EvPoolPut"
    by simp
  ultimately show ?thesis
    by (intro exI [of _ "[EvToken, EvPoolGet] @ evs @ [EvPoolPut]"]) simp
next
  case False
  then have "snd (MediaUpload c mediaType filename mediaReader tr) = tr
           \<or> snd (MediaUpload c mediaType filename mediaReader tr) = tr @ [EvToken]"
    by (auto simp: MediaUpload_def split: option.splits sum.splits)
  then show ?thesis
  proof
    assume "snd (MediaUpload c mediaType filename mediaReader tr) = tr"
    then show ?thesis
      by (intro exI [of _ "[]"]) (simp add: pool_events_def)
  next
    assume "snd (MediaUpload c mediaType filename mediaReader tr) = tr @ [EvToken]"
    then show ?thesis
      by (intro exI [of _ "[EvToken]"]) (simp add: pool_events_def)
  qed
qed

text \<open>
  One run for each way out of \<open>MediaUpload\<close> after the acquisition: success, a multipart
  writer that cannot be closed, a transport failure, status 500, a decode failure and a
  remote error.
\<close>

theorem upload_returns_pooled_buffer_witness:
  "snd (MediaUpload (fake_env ok_response (Inr success_doc)) ''image'' ''a.jpg''
          (Some data_file) [])
     = [EvToken, EvPoolGet,
        EvPost ''upload?TOKEN&image'' ''multipart/form-data'' ''[file:a.jpg]data[end]'',
        EvDecode, EvBodyClose, EvPoolPut]
   \<and> snd (MediaUpload failing_close_env ''image'' ''a.jpg'' (Some data_file) [])
     = [EvToken, EvPoolGet, EvPoolPut]
   \<and> snd (MediaUpload failing_post_env ''image'' ''a.jpg'' (Some data_file) [])
     = [EvToken, EvPoolGet,
        EvPost ''upload?TOKEN&image'' ''multipart/form-data'' ''[file:a.jpg]data[end]'',
        EvPoolPut]
   \<and> snd (MediaUpload (fake_env error_500 (Inr success_doc)) ''image'' ''a.jpg''
          (Some data_file) [])
     = [EvToken, EvPoolGet,
        EvPost ''upload?TOKEN&image'' ''multipart/form-data'' ''[file:a.jpg]data[end]'',
        EvBodyClose, EvPoolPut]
   \<and> snd (MediaUpload (fake_env ok_response (Inl (Foreign ''unexpected end of JSON input'')))
          ''image'' ''a.jpg'' (Some data_file) [])
     = [EvToken, EvPoolGet,
        EvPost ''upload?TOKEN&image'' ''multipart/form-data'' ''[file:a.jpg]data[end]'',
        EvDecode, EvBodyClose, EvPoolPut]
   \<and> snd (MediaUpload (fake_env ok_response (Inr remote_error_doc)) ''image'' ''a.jpg''
          (Some data_file) [])
     = [EvToken, EvPoolGet,
        EvPost ''upload?TOKEN&image'' ''multipart/form-data'' ''[file:a.jpg]data[end]'',
        EvDecode, EvBodyClose, EvPoolPut]
   \<and> pool_events [EvToken, EvPoolGet,
        EvPost ''upload?TOKEN&image'' ''multipart/form-data'' ''[file:a.jpg]data[end]'',
        EvDecode, EvBodyClose, EvPoolPut] = [EvPoolGet, EvPoolPut]"
proof -
  have runs:
    "snd (MediaUpload (fake_env ok_response (Inr success_doc)) ''image'' ''a.jpg''
          (Some data_file) [])
     = [EvToken, EvPoolGet,
        EvPost ''upload?TOKEN&image'' ''multipart/form-data'' ''[file:a.jpg]data[end]'',
        EvDecode, EvBodyClose, EvPoolPut]"
    "snd (MediaUpload failing_close_env ''image'' ''a.jpg'' (Some data_file) [])
     = [EvToken, EvPoolGet, EvPoolPut]"
    "snd (MediaUpload failing_post_env ''image'' ''a.jpg'' (Some data_file) [])
     = [EvToken, EvPoolGet,
        EvPost ''upload?TOKEN&image'' ''multipart/form-data'' ''[file:a.jpg]data[end]'',
        EvPoolPut]"
    "snd (MediaUpload (fake_env error_500 (Inr success_doc)) ''image'' ''a.jpg''
          (Some data_file) [])
     = [EvToken, EvPoolGet,
        EvPost ''upload?TOKEN&image'' ''multipart/form-data'' ''[file:a.jpg]data[end]'',
        EvBodyClose, EvPoolPut]"
    "snd (MediaUpload (fake_env ok_response (Inr remote_error_doc)) ''image'' ''a.jpg''
          (Some data_file) [])
     = [EvToken, EvPoolGet,
        EvPost ''upload?TOKEN&image'' ''multipart/form-data'' ''[file:a.jpg]data[end]'',
        EvDecode, EvBodyClose, EvPoolPut]"
    by (simp_all add: MediaUpload_def MediaUpload_pooled_def MediaUpload_response_def
          MediaUpload_decode_def failing_close_env_def failing_post_env_def fake_env_def
          ok_response_def error_500_def fake_response_def data_file_def success_doc_def
          remote_error_doc_def io_Copy_def http_StatusOK_def int_field_def
          thumb_result_tags_def upload_result_tags_def
          MEDIA_TYPE_IMAGE_def MEDIA_TYPE_VOICE_def MEDIA_TYPE_VIDEO_def MEDIA_TYPE_THUMB_def)
  have run: "snd (MediaUpload (fake_env ok_response (Inl (Foreign ''unexpected end of JSON input'')))
          ''image'' ''a.jpg'' (Some data_file) [])
     = [EvToken, EvPoolGet,
        EvPost ''upload?TOKEN&image'' ''multipart/form-data'' ''[file:a.jpg]data[end]'',
        EvDecode, EvBodyClose, EvPoolPut]"
    by (simp add: run_defs ok_response_def)
  from upload_returns_pooled_buffer
    [of "fake_env ok_response (Inl (Foreign ''unexpected end of JSON input''))"
        "''image''" "''a.jpg''" "Some data_file" "[]"] run
  have "pool_events [EvToken, EvPoolGet,
        EvPost ''upload?TOKEN&image'' ''multipart/form-data'' ''[file:a.jpg]data[end]'',
        EvDecode, EvBodyClose, EvPoolPut] = [EvPoolGet, EvPoolPut]"
    by (auto simp: pool_events_def)
  with runs run show ?thesis by simp
qed

section \<open>Responses with another status than 200\<close>

lemma MediaUpload_reaches_response:
  assumes "mediaType \<in> {MEDIA_TYPE_IMAGE, MEDIA_TYPE_VOICE, MEDIA_TYPE_VIDEO, MEDIA_TYPE_THUMB}"
    and "filename \<noteq> []" and "Token c = Inr token"
    and "multipart_CreateFormFile c ''file'' filename = Inr header"
    and "rerr rd = None"
    and "multipart_Close c = Inr trailer"
    and "httpClient_Post c (mediaUploadURL c token mediaType) (multipart_FormDataContentType c)
           (header @ rdata rd @ trailer) = Inr resp"
  shows "MediaUpload c mediaType filename (Some rd) tr =
           (case MediaUpload_response c mediaType resp
                   (tr @ [EvToken, EvPoolGet,
                          EvPost (mediaUploadURL c token mediaType)
                            (multipart_FormDataContentType c) (header @ rdata rd @ trailer)]) of
              (ret, tr') \<Rightarrow> (ret, tr' @ [EvBodyClose, EvPoolPut]))"
  using assms
  by (auto simp: MediaUpload_def MediaUpload_pooled_def io_Copy_def Let_def split: prod.splits)

lemma MediaUpload_status:
  assumes "mediaType \<in> {MEDIA_TYPE_IMAGE, MEDIA_TYPE_VOICE, MEDIA_TYPE_VIDEO, MEDIA_TYPE_THUMB}"
    and "filename \<noteq> []" and "Token c = Inr token"
    and "multipart_CreateFormFile c ''file'' filename = Inr header"
    and "rerr rd = None"
    and "multipart_Close c = Inr trailer"
    and "httpClient_Post c (mediaUploadURL c token mediaType) (multipart_FormDataContentType c)
           (header @ rdata rd @ trailer) = Inr resp"
    and "StatusCode resp \<noteq> 200"
  shows "MediaUpload c mediaType filename (Some rd) tr =
           ((None, Some (FmtErrorf (''http.Status: '' @ Status resp))),
            tr @ [EvToken, EvPoolGet,
                  EvPost (mediaUploadURL c token mediaType) (multipart_FormDataContentType c)
                    (header @ rdata rd @ trailer),
                  EvBodyClose, EvPoolPut])"
  using assms(8)
  by (simp add: MediaUpload_reaches_response [OF assms(1-7)] MediaUpload_response_def
        http_StatusOK_def)

lemma MediaDownload_status:
  assumes "mediaId \<noteq> []" and "Token c = Inr token"
    and "httpClient_Get c (mediaDownloadURL c token mediaId) = Inr resp"
    and "StatusCode resp \<noteq> 200"
  shows "MediaDownload c mediaId (Some w) tr =
           (Some (FmtErrorf (''http.Status: '' @ Status resp)), Some w,
            tr @ [EvToken, EvGet (mediaDownloadURL c token mediaId), EvBodyClose])"
  using assms(4)
  by (simp add: MediaDownload_reaches_response [OF assms(1-3)] MediaDownload_response_def
        http_StatusOK_def)

lemma News_status:
  assumes "Token c = Inr token" and "json_Encode c payload = Inr body"
    and "httpClient_Post c (mediaUploadNewsURL c token) (jsonContentType c) body = Inr resp"
    and "StatusCode resp \<noteq> 200"
  shows "MediaUploadNews c (Some payload) tr =
           ((None, Some (FmtErrorf (''http.Status: '' @ Status resp))),
            tr @ [EvToken, EvPost (mediaUploadNewsURL c token) (jsonContentType c) body,
                  EvBodyClose])"
  using assms(1)
  by (simp add: MediaUploadNews_def upload_result_def postJSON_status [OF assms(2-4)])

lemma Video_status:
  assumes "Token c = Inr token" and "json_Encode c payload = Inr body"
    and "httpClient_Post c (mediaUploadVideoURL c token) (jsonContentType c) body = Inr resp"
    and "StatusCode resp \<noteq> 200"
  shows "MediaUploadVideo c (Some payload) tr =
           ((None, Some (FmtErrorf (''http.Status: '' @ Status resp))),
            tr @ [EvToken, EvPost (mediaUploadVideoURL c token) (jsonContentType c) body,
                  EvBodyClose])"
  using assms(1)
  by (simp add: MediaUploadVideo_def upload_result_def postJSON_status [OF assms(2-4)])

lemma GetById_status:
  assumes "Token c = Inr token" and "json_Encode c (GetById_request orderId) = Inr body"
    and "httpClient_Post c (merchantOrderGetByIdURL c token) (jsonContentType c) body = Inr resp"
    and "StatusCode resp \<noteq> 200"
  shows "MerchantOrderGetById c orderId tr =
           ((None, Some (FmtErrorf (''http.Status: '' @ Status resp))),
            tr @ [EvToken, EvPost (merchantOrderGetByIdURL c token) (jsonContentType c) body,
                  EvBodyClose])"
  using assms(1)
  by (simp add: MerchantOrderGetById_def postJSON_status [OF assms(2-4)])

lemma GetByFilter_status:
  assumes "Token c = Inr token"
    and "json_Encode c (GetByFilter_request status beginTime endTime) = Inr body"
    and "httpClient_Post c (merchantOrderGetByFilterURL c token) (jsonContentType c) body
           = Inr resp"
    and "StatusCode resp \<noteq> 200"
  shows "MerchantOrderGetByFilter c status beginTime endTime tr =
           ((None, Some (FmtErrorf (''http.Status: '' @ Status resp))),
            tr @ [EvToken, EvPost (merchantOrderGetByFilterURL c token) (jsonContentType c) body,
                  EvBodyClose])"
  using assms(1)
  by (simp add: MerchantOrderGetByFilter_def postJSON_status [OF assms(2-4)])

lemma SetDelivery_status:
  assumes "Token c = Inr token"
    and "json_Encode c (SetDelivery_request orderId company trackNo) = Inr body"
    and "httpClient_Post c (merchantOrderSetDeliveryURL c token) (jsonContentType c) body
           = Inr resp"
    and "StatusCode resp \<noteq> 200"
  shows "MerchantOrderSetDelivery c orderId company trackNo tr =
           (Some (FmtErrorf (''http.Status: '' @ Status resp)),
            tr @ [EvToken, EvPost (merchantOrderSetDeliveryURL c token) (jsonContentType c) body,
                  EvBodyClose])"
  using assms(1)
  by (simp add: MerchantOrderSetDelivery_def error_result_def postJSON_status [OF assms(2-4)])

lemma Close_status:
  assumes "Token c = Inr token" and "json_Encode c (Close_request orderId) = Inr body"
    and "httpClient_Post c (merchantOrderCloseURL c token) (jsonContentType c) body = Inr resp"
    and "StatusCode resp \<noteq> 200"
  shows "MerchantOrderClose c orderId tr =
           (Some (FmtErrorf (''http.Status: '' @ Status resp)),
            tr @ [EvToken, EvPost (merchantOrderCloseURL c token) (jsonContentType c) body,
                  EvBodyClose])"
  using assms(1)
  by (simp add: MerchantOrderClose_def error_result_def postJSON_status [OF assms(2-4)])

lemma FromFile_status:
  assumes "os_Open c filePath = Inr rd"
    and "mediaType \<in> {MEDIA_TYPE_IMAGE, MEDIA_TYPE_VOICE, MEDIA_TYPE_VIDEO, MEDIA_TYPE_THUMB}"
    and "filepath_Base c filePath \<noteq> []" and "Token c = Inr token"
    and "multipart_CreateFormFile c ''file'' (filepath_Base c filePath) = Inr header"
    and "rerr rd = None"
    and "multipart_Close c = Inr trailer"
    and "httpClient_Post c (mediaUploadURL c token mediaType) (multipart_FormDataContentType c)
           (header @ rdata rd @ trailer) = Inr resp"
    and "StatusCode resp \<noteq> 200"
  shows "MediaUploadFromFile c mediaType filePath tr =
           ((None, Some (FmtErrorf (''http.Status: '' @ Status resp))),
            tr @ [EvOpen filePath, EvToken, EvPoolGet,
                  EvPost (mediaUploadURL c token mediaType) (multipart_FormDataContentType c)
                    (header @ rdata rd @ trailer),
                  EvBodyClose, EvPoolPut, EvFileClose])"
  using assms(1)
  by (simp add: MediaUploadFromFile_def MediaUpload_status [OF assms(2-9)])

lemma ToFile_status:
  assumes "os_Create c filePath = Inr w"
    and "mediaId \<noteq> []" and "Token c = Inr token"
    and "httpClient_Get c (mediaDownloadURL c token mediaId) = Inr resp"
    and "StatusCode resp \<noteq> 200"
  shows "MediaDownloadToFile c mediaId filePath tr =
           (Some (FmtErrorf (''http.Status: '' @ Status resp)), Some w,
            tr @ [EvCreate filePath, EvToken, EvGet (mediaDownloadURL c token mediaId),
                  EvBodyClose, EvFileClose])"
  using assms(1)
  by (simp add: MediaDownloadToFile_def MediaDownload_status [OF assms(2-5)])

text \<open>
  C6. When the token is there and the response to the request of an operation has a
  status code other than 200, the operation returns no result and the error
  \<open>fmt.Errorf("http.Status: %s", resp.Status)\<close>, whose message ends with the status; the
  trace of the call has no decoding event: the error is made before any JSON decoding.
  This holds for the ten operations; for the six that send their request through
  \<open>postJSON\<close>, it is what the helper does.
\<close>

theorem non_200_status_is_an_error:
  assumes "Token c = Inr token" and "StatusCode resp \<noteq> 200"
  shows
    "(mediaType \<in> {MEDIA_TYPE_IMAGE, MEDIA_TYPE_VOICE, MEDIA_TYPE_VIDEO, MEDIA_TYPE_THUMB}
      \<and> filename \<noteq> []
      \<and> multipart_CreateFormFile c ''file'' filename = Inr header
      \<and> rerr rd = None
      \<and> multipart_Close c = Inr trailer
      \<and> httpClient_Post c (mediaUploadURL c token mediaType) (multipart_FormDataContentType c)
           (header @ rdata rd @ trailer) = Inr resp \<longrightarrow>
      MediaUpload c mediaType filename (Some rd) tr =
        ((None, Some (FmtErrorf (''http.Status: '' @ Status resp))),
         tr @ [EvToken, EvPoolGet,
               EvPost (mediaUploadURL c token mediaType) (multipart_FormDataContentType c)
                 (header @ rdata rd @ trailer),
               EvBodyClose, EvPoolPut]))
   \<and> (os_Open c filePath = Inr rd
      \<and> mediaType \<in> {MEDIA_TYPE_IMAGE, MEDIA_TYPE_VOICE, MEDIA_TYPE_VIDEO, MEDIA_TYPE_THUMB}
      \<and> filepath_Base c filePath \<noteq> []
      \<and> multipart_CreateFormFile c ''file'' (filepath_Base c filePath) = Inr header
      \<and> rerr rd = None
      \<and> multipart_Close c = Inr trailer
      \<and> httpClient_Post c (mediaUploadURL c token mediaType) (multipart_FormDataContentType c)
           (header @ rdata rd @ trailer) = Inr resp \<longrightarrow>
      MediaUploadFromFile c mediaType filePath tr =
        ((None, Some (FmtErrorf (''http.Status: '' @ Status resp))),
         tr @ [EvOpen filePath, EvToken, EvPoolGet,
               EvPost (mediaUploadURL c token mediaType) (multipart_FormDataContentType c)
                 (header @ rdata rd @ trailer),
               EvBodyClose, EvPoolPut, EvFileClose]))
   \<and> (mediaId \<noteq> [] \<and> httpClient_Get c (mediaDownloadURL c token mediaId) = Inr resp \<longrightarrow>
      MediaDownload c mediaId (Some w) tr =
        (Some (FmtErrorf (''http.Status: '' @ Status resp)), Some w,
         tr @ [EvToken, EvGet (mediaDownloadURL c token mediaId), EvBodyClose]))
   \<and> (os_Create c filePath = Inr w
      \<and> mediaId \<noteq> [] \<and> httpClient_Get c (mediaDownloadURL c token mediaId) = Inr resp \<longrightarrow>
      MediaDownloadToFile c mediaId filePath tr =
        (Some (FmtErrorf (''http.Status: '' @ Status resp)), Some w,
         tr @ [EvCreate filePath, EvToken, EvGet (mediaDownloadURL c token mediaId),
               EvBodyClose, EvFileClose]))
   \<and> (json_Encode c payload = Inr body
      \<and> httpClient_Post c (mediaUploadNewsURL c token) (jsonContentType c) body = Inr resp \<longrightarrow>
      MediaUploadNews c (Some payload) tr =
        ((None, Some (FmtErrorf (''http.Status: '' @ Status resp))),
         tr @ [EvToken, EvPost (mediaUploadNewsURL c token) (jsonContentType c) body,
               EvBodyClose]))
   \<and> (json_Encode c payload = Inr body
      \<and> httpClient_Post c (mediaUploadVideoURL c token) (jsonContentType c) body = Inr resp \<longrightarrow>
      MediaUploadVideo c (Some payload) tr =
        ((None, Some (FmtErrorf (''http.Status: '' @ Status resp))),
         tr @ [EvToken, EvPost (mediaUploadVideoURL c token) (jsonContentType c) body,
               EvBodyClose]))
   \<and> (json_Encode c (GetById_request orderId) = Inr body
      \<and> httpClient_Post c (merchantOrderGetByIdURL c token) (jsonContentType c) body
           = Inr resp \<longrightarrow>
      MerchantOrderGetById c orderId tr =
        ((None, Some (FmtErrorf (''http.Status: '' @ Status resp))),
         tr @ [EvToken, EvPost (merchantOrderGetByIdURL c token) (jsonContentType c) body,
               EvBodyClose]))
   \<and> (json_Encode c (GetByFilter_request status beginTime endTime) = Inr body
      \<and> httpClient_Post c (merchantOrderGetByFilterURL c token) (jsonContentType c) body
           = Inr resp \<longrightarrow>
      MerchantOrderGetByFilter c status beginTime endTime tr =
        ((None, Some (FmtErrorf (''http.Status: '' @ Status resp))),
         tr @ [EvToken, EvPost (merchantOrderGetByFilterURL c token) (jsonContentType c) body,
               EvBodyClose]))
   \<and> (json_Encode c (SetDelivery_request orderId company trackNo) = Inr body
      \<and> httpClient_Post c (merchantOrderSetDeliveryURL c token) (jsonContentType c) body
           = Inr resp \<longrightarrow>
      MerchantOrderSetDelivery c orderId company trackNo tr =
        (Some (FmtErrorf (''http.Status: '' @ Status resp)),
         tr @ [EvToken, EvPost (merchantOrderSetDeliveryURL c token) (jsonContentType c) body,
               EvBodyClose]))
   \<and> (json_Encode c (Close_request orderId) = Inr body
      \<and> httpClient_Post c (merchantOrderCloseURL c token) (jsonContentType c) body
           = Inr resp \<longrightarrow>
      MerchantOrderClose c orderId tr =
        (Some (FmtErrorf (''http.Status: '' @ Status resp)),
         tr @ [EvToken, EvPost (merchantOrderCloseURL c token) (jsonContentType c) body,
               EvBodyClose]))"
  using assms
  by (intro conjI impI)
     (simp_all add: MediaUpload_status FromFile_status MediaDownload_status ToFile_status
        News_status Video_status GetById_status GetByFilter_status SetDelivery_status
        Close_status)

theorem non_200_status_is_an_error_witness:
  "MediaUpload (fake_env error_500 (Inr [])) ''image'' ''a.jpg'' (Some data_file) []
     = ((None, Some (FmtErrorf ''http.Status: 500 Internal Server Error'')),
        [EvToken, EvPoolGet,
         EvPost ''upload?TOKEN&image'' ''multipart/form-data'' ''[file:a.jpg]data[end]'',
         EvBodyClose, EvPoolPut])
   \<and> MediaUploadFromFile (fake_env error_500 (Inr [])) ''image'' ''a.jpg'' []
     = ((None, Some (FmtErrorf ''http.Status: 500 Internal Server Error'')),
        [EvOpen ''a.jpg'', EvToken, EvPoolGet,
         EvPost ''upload?TOKEN&image'' ''multipart/form-data'' ''[file:a.jpg]data[end]'',
         EvBodyClose, EvPoolPut, EvFileClose])
   \<and> MediaDownload (fake_env error_500 (Inr [])) ''m1'' (Some memory_sink) []
     = (Some (FmtErrorf ''http.Status: 500 Internal Server Error''), Some memory_sink,
        [EvToken, EvGet ''get?TOKEN&m1'', EvBodyClose])
   \<and> MediaDownloadToFile (fake_env error_500 (Inr [])) ''m1'' ''a.jpg'' []
     = (Some (FmtErrorf ''http.Status: 500 Internal Server Error''), Some memory_sink,
        [EvCreate ''a.jpg'', EvToken, EvGet ''get?TOKEN&m1'', EvBodyClose, EvFileClose])
   \<and> MediaUploadNews (fake_env error_500 (Inr [])) (Some (JObject [])) []
     = ((None, Some (FmtErrorf ''http.Status: 500 Internal Server Error'')),
        [EvToken, EvPost ''uploadnews?TOKEN'' ''application/json'' ''{}'', EvBodyClose])
   \<and> MediaUploadVideo (fake_env error_500 (Inr [])) (Some (JObject [])) []
     = ((None, Some (FmtErrorf ''http.Status: 500 Internal Server Error'')),
        [EvToken, EvPost ''uploadvideo?TOKEN'' ''application/json'' ''{}'', EvBodyClose])
   \<and> MerchantOrderGetById (fake_env error_500 (Inr [])) ''7'' []
     = ((None, Some (FmtErrorf ''http.Status: 500 Internal Server Error'')),
        [EvToken, EvPost ''getbyid?TOKEN'' ''application/json'' ''{order_id,}'', EvBodyClose])
   \<and> MerchantOrderGetByFilter (fake_env error_500 (Inr [])) 2 0 0 []
     = ((None, Some (FmtErrorf ''http.Status: 500 Internal Server Error'')),
        [EvToken, EvPost ''getbyfilter?TOKEN'' ''application/json'' ''{status,}'', EvBodyClose])
   \<and> MerchantOrderSetDelivery (fake_env error_500 (Inr [])) ''7'' ''Fedex'' ''123'' []
     = (Some (FmtErrorf ''http.Status: 500 Internal Server Error''),
        [EvToken,
         EvPost ''setdelivery?TOKEN'' ''application/json''
           ''{order_id,delivery_company,delivery_track_no,}'',
         EvBodyClose])
   \<and> MerchantOrderClose (fake_env error_500 (Inr [])) ''7'' []
     = (Some (FmtErrorf ''http.Status: 500 Internal Server Error''),
        [EvToken, EvPost ''close?TOKEN'' ''application/json'' ''{order_id,}'', EvBodyClose])"
proof -
  have tok: "Token (fake_env error_500 (Inr [])) = Inr ''TOKEN''"
    and st: "StatusCode error_500 \<noteq> 200"
    by (simp_all add: fake_env_simps error_500_def fake_response_simps)
  note t = non_200_status_is_an_error [OF tok st, where tr = "[]"]
  note u = t [where mediaType = "''image''" and filename = "''a.jpg''" and rd = data_file
      and header = "''[file:a.jpg]''" and trailer = "''[end]''" and filePath = "''a.jpg''"
      and mediaId = "''m1''" and w = memory_sink and payload = "JObject []"
      and orderId = "''7''" and status = 2 and beginTime = 0 and endTime = 0
      and company = "''Fedex''" and trackNo = "''123''"]
  from u [where body = "''{}''"] u [where body = "''{order_id,}''"]
    u [where body = "''{status,}''"]
    u [where body = "''{order_id,delivery_company,delivery_track_no,}''"]
  show ?thesis
    by (simp add: fake_env_simps fake_response_simps error_500_def data_file_def
          GetById_request_def GetByFilter_request_def SetDelivery_request_def
          Close_request_def omitempty_def
          MEDIA_TYPE_IMAGE_def MEDIA_TYPE_VOICE_def MEDIA_TYPE_VIDEO_def MEDIA_TYPE_THUMB_def)
qed

section \<open>Results and remote errors\<close>

lemma MediaUpload_decoded:
  assumes "mediaType \<in> {MEDIA_TYPE_IMAGE, MEDIA_TYPE_VOICE, MEDIA_TYPE_VIDEO, MEDIA_TYPE_THUMB}"
    and "filename \<noteq> []" and "Token c = Inr token"
    and "multipart_CreateFormFile c ''file'' filename = Inr header"
    and "rerr rd = None"
    and "multipart_Close c = Inr trailer"
    and "httpClient_Post c (mediaUploadURL c token mediaType) (multipart_FormDataContentType c)
           (header @ rdata rd @ trailer) = Inr resp"
    and "StatusCode resp = 200"
    and "json_Decode c (if mediaType = MEDIA_TYPE_THUMB then thumb_result_tags
                        else upload_result_tags) (Body resp) = Inr result"
    and "int_field result ''errcode'' \<noteq> 0"
  shows "MediaUpload c mediaType filename (Some rd) tr =
           ((None, Some (RemoteError \<lparr>ErrCode = int_field result ''errcode'',
                                      ErrMsg = str_field result ''errmsg''\<rparr>)),
            tr @ [EvToken, EvPoolGet,
                  EvPost (mediaUploadURL c token mediaType) (multipart_FormDataContentType c)
                    (header @ rdata rd @ trailer),
                  EvDecode, EvBodyClose, EvPoolPut])"
  using assms(8-10)
  by (auto simp: MediaUpload_reaches_response [OF assms(1-7)] MediaUpload_response_def
        MediaUpload_decode_def http_StatusOK_def result_Error_def split: if_splits)

lemma upload_result_inv:
  assumes "fst (fst (upload_result (postJSON c url request tags tr))) \<noteq> None"
  shows "snd (fst (upload_result (postJSON c url request tags tr))) = None
         \<and> (\<exists>body resp result.
               httpClient_Post c url (jsonContentType c) body = Inr resp
             \<and> StatusCode resp = 200
             \<and> json_Decode c tags (Body resp) = Inr result
             \<and> int_field result ''errcode'' = 0
             \<and> fst (fst (upload_result (postJSON c url request tags tr)))
                 = Some (result_UploadResponse result))"
proof -
  obtain r tr' where p: "postJSON c url request tags tr = (r, tr')"
    by (cases "postJSON c url request tags tr")
  with assms obtain result where r: "r = Inr result" and z: "int_field result ''errcode'' = 0"
    by (cases r) (auto simp: upload_result_def split: if_splits)
  from postJSON_inv [of c url request tags tr result tr'] p r
  obtain body resp where "httpClient_Post c url (jsonContentType c) body = Inr resp"
    "StatusCode resp = 200" "json_Decode c tags (Body resp) = Inr result"
    by auto
  with p r z show ?thesis
    by (auto simp: upload_result_def)
qed

lemma News_result_inv:
  assumes "fst (fst (MediaUploadNews c news tr)) \<noteq> None"
  shows "snd (fst (MediaUploadNews c news tr)) = None
         \<and> (\<exists>url ctype body resp result.
               httpClient_Post c url ctype body = Inr resp
             \<and> StatusCode resp = 200
             \<and> json_Decode c upload_result_tags (Body resp) = Inr result
             \<and> int_field result ''errcode'' = 0
             \<and> fst (fst (MediaUploadNews c news tr)) = Some (result_UploadResponse result))"
proof -
  from assms obtain payload token where
    n: "news = Some payload" and t: "Token c = Inr token"
    by (auto simp: MediaUploadNews_def split: option.splits sum.splits)
  then have eq: "MediaUploadNews c news tr =
      upload_result (postJSON c (mediaUploadNewsURL c token) payload upload_result_tags
                       (tr @ [EvToken]))"
    by (simp add: MediaUploadNews_def)
  from upload_result_inv [of c "mediaUploadNewsURL c token" payload upload_result_tags
         "tr @ [EvToken]"] assms
  show ?thesis unfolding eq by blast
qed

lemma Video_result_inv:
  assumes "fst (fst (MediaUploadVideo c video tr)) \<noteq> None"
  shows "snd (fst (MediaUploadVideo c video tr)) = None
         \<and> (\<exists>url ctype body resp result.
               httpClient_Post c url ctype body = Inr resp
             \<and> StatusCode resp = 200
             \<and> json_Decode c upload_result_tags (Body resp) = Inr result
             \<and> int_field result ''errcode'' = 0
             \<and> fst (fst (MediaUploadVideo c video tr)) = Some (result_UploadResponse result))"
proof -
  from assms obtain payload token where
    n: "video = Some payload" and t: "Token c = Inr token"
    by (auto simp: MediaUploadVideo_def split: option.splits sum.splits)
  then have eq: "MediaUploadVideo c video tr =
      upload_result (postJSON c (mediaUploadVideoURL c token) payload upload_result_tags
                       (tr @ [EvToken]))"
    by (simp add: MediaUploadVideo_def)
  from upload_result_inv [of c "mediaUploadVideoURL c token" payload upload_result_tags
         "tr @ [EvToken]"] assms
  show ?thesis unfolding eq by blast
qed

lemma MediaUpload_result_inv:
  assumes "fst (fst (MediaUpload c mediaType filename mediaReader tr)) \<noteq> None"
  shows "snd (fst (MediaUpload c mediaType filename mediaReader tr)) = None
         \<and> (\<exists>url ctype body resp result.
               httpClient_Post c url ctype body = Inr resp
             \<and> StatusCode resp = 200
             \<and> json_Decode c (if mediaType = MEDIA_TYPE_THUMB then thumb_result_tags
                              else upload_result_tags) (Body resp) = Inr result
             \<and> int_field result ''errcode'' = 0)"
proof -
  obtain ret err tr' where
    m: "MediaUpload c mediaType filename mediaReader tr = ((ret, err), tr')"
    by (metis surj_pair)
  with assms have nn: "ret \<noteq> None \<or> err = None" by simp
  from MediaUpload_inv [OF m nn] obtain rd token tr1 where
    p: "MediaUpload_pooled c token mediaType filename rd (tr @ [EvToken, EvPoolGet])
          = ((ret, err), tr1)"
    by auto
  from MediaUpload_pooled_inv [OF p nn] obtain url ctype body resp tr0 tr2 where
    post: "httpClient_Post c url ctype body = Inr resp"
    and r: "MediaUpload_response c mediaType resp tr0 = ((ret, err), tr2)"
    by auto
  from MediaUpload_response_inv [OF r nn]
  have st: "StatusCode resp = 200"
    and d: "MediaUpload_decode c mediaType resp tr0 = ((ret, err), tr2)"
    by (simp_all add: http_StatusOK_def)
  from MediaUpload_decode_inv [OF d nn] post st m show ?thesis
    by fastforce
qed

lemma GetById_result_inv:
  assumes "fst (fst (MerchantOrderGetById c orderId tr)) \<noteq> None"
  shows "snd (fst (MerchantOrderGetById c orderId tr)) = None
         \<and> (\<exists>url ctype body resp result.
               httpClient_Post c url ctype body = Inr resp
             \<and> StatusCode resp = 200
             \<and> json_Decode c GetById_result_tags (Body resp) = Inr result
             \<and> int_field result ''errcode'' = 0
             \<and> fst (fst (MerchantOrderGetById c orderId tr))
                 = Some (order_field result ''order''))"
proof -
  from assms obtain token where t: "Token c = Inr token"
    by (auto simp: MerchantOrderGetById_def split: sum.splits)
  obtain r tr' where p: "postJSON c (merchantOrderGetByIdURL c token) (GetById_request orderId)
                           GetById_result_tags (tr @ [EvToken]) = (r, tr')"
    by (metis surj_pair)
  with assms t obtain result where r: "r = Inr result" and z: "int_field result ''errcode'' = 0"
    by (cases r) (auto simp: MerchantOrderGetById_def split: if_splits)
  from postJSON_inv [OF p [unfolded r]]
  obtain body resp where
    "httpClient_Post c (merchantOrderGetByIdURL c token) (jsonContentType c) body = Inr resp"
    "StatusCode resp = 200" "json_Decode c GetById_result_tags (Body resp) = Inr result"
    by auto
  moreover from p r z t have "MerchantOrderGetById c orderId tr
                                = ((Some (order_field result ''order''), None), tr')"
    by (simp add: MerchantOrderGetById_def)
  ultimately show ?thesis using z
    by (simp del: ex_simps) blast
qed

lemma GetByFilter_result_inv:
  assumes "fst (fst (MerchantOrderGetByFilter c status beginTime endTime tr)) \<noteq> None"
  shows "snd (fst (MerchantOrderGetByFilter c status beginTime endTime tr)) = None
         \<and> (\<exists>url ctype body resp result.
               httpClient_Post c url ctype body = Inr resp
             \<and> StatusCode resp = 200
             \<and> json_Decode c GetByFilter_result_tags (Body resp) = Inr result
             \<and> int_field result ''errcode'' = 0
             \<and> fst (fst (MerchantOrderGetByFilter c status beginTime endTime tr))
                 = Some (list_field result ''order_list''))"
proof -
  from assms obtain token where t: "Token c = Inr token"
    by (auto simp: MerchantOrderGetByFilter_def split: sum.splits)
  obtain r tr' where p: "postJSON c (merchantOrderGetByFilterURL c token)
                           (GetByFilter_request status beginTime endTime)
                           GetByFilter_result_tags (tr @ [EvToken]) = (r, tr')"
    by (metis surj_pair)
  with assms t obtain result where r: "r = Inr result" and z: "int_field result ''errcode'' = 0"
    by (cases r) (auto simp: MerchantOrderGetByFilter_def split: if_splits)
  from postJSON_inv [OF p [unfolded r]]
  obtain body resp where
    "httpClient_Post c (merchantOrderGetByFilterURL c token) (jsonContentType c) body = Inr resp"
    "StatusCode resp = 200" "json_Decode c GetByFilter_result_tags (Body resp) = Inr result"
    by auto
  moreover from p r z t have "MerchantOrderGetByFilter c status beginTime endTime tr
                                = ((Some (list_field result ''order_list''), None), tr')"
    by (simp add: MerchantOrderGetByFilter_def)
  ultimately show ?thesis using z
    by (simp del: ex_simps) blast
qed

lemma News_decoded:
  assumes "Token c = Inr token" and "json_Encode c payload = Inr body"
    and "httpClient_Post c (mediaUploadNewsURL c token) (jsonContentType c) body = Inr resp"
    and "StatusCode resp = 200"
    and "json_Decode c upload_result_tags (Body resp) = Inr result"
  shows "MediaUploadNews c (Some payload) tr =
           (if int_field result ''errcode'' = 0
            then (Some (result_UploadResponse result), None)
            else (None, Some (RemoteError \<lparr>ErrCode = int_field result ''errcode'',
                                           ErrMsg = str_field result ''errmsg''\<rparr>)),
            tr @ [EvToken, EvPost (mediaUploadNewsURL c token) (jsonContentType c) body,
                  EvDecode, EvBodyClose])"
  using assms(1,5)
  by (simp add: MediaUploadNews_def upload_result_def postJSON_decodes [OF assms(2-4)]
        result_Error_def)

lemma Video_decoded:
  assumes "Token c = Inr token" and "json_Encode c payload = Inr body"
    and "httpClient_Post c (mediaUploadVideoURL c token) (jsonContentType c) body = Inr resp"
    and "StatusCode resp = 200"
    and "json_Decode c upload_result_tags (Body resp) = Inr result"
  shows "MediaUploadVideo c (Some payload) tr =
           (if int_field result ''errcode'' = 0
            then (Some (result_UploadResponse result), None)
            else (None, Some (RemoteError \<lparr>ErrCode = int_field result ''errcode'',
                                           ErrMsg = str_field result ''errmsg''\<rparr>)),
            tr @ [EvToken, EvPost (mediaUploadVideoURL c token) (jsonContentType c) body,
                  EvDecode, EvBodyClose])"
  using assms(1,5)
  by (simp add: MediaUploadVideo_def upload_result_def postJSON_decodes [OF assms(2-4)]
        result_Error_def)

lemma GetById_decoded:
  assumes "Token c = Inr token" and "json_Encode c (GetById_request orderId) = Inr body"
    and "httpClient_Post c (merchantOrderGetByIdURL c token) (jsonContentType c) body = Inr resp"
    and "StatusCode resp = 200"
    and "json_Decode c GetById_result_tags (Body resp) = Inr result"
  shows "MerchantOrderGetById c orderId tr =
           (if int_field result ''errcode'' = 0
            then (Some (order_field result ''order''), None)
            else (None, Some (RemoteError \<lparr>ErrCode = int_field result ''errcode'',
                                           ErrMsg = str_field result ''errmsg''\<rparr>)),
            tr @ [EvToken, EvPost (merchantOrderGetByIdURL c token) (jsonContentType c) body,
                  EvDecode, EvBodyClose])"
  using assms(1,5)
  by (simp add: MerchantOrderGetById_def postJSON_decodes [OF assms(2-4)] result_Error_def)

lemma GetByFilter_decoded:
  assumes "Token c = Inr token"
    and "json_Encode c (GetByFilter_request status beginTime endTime) = Inr body"
    and "httpClient_Post c (merchantOrderGetByFilterURL c token) (jsonContentType c) body
           = Inr resp"
    and "StatusCode resp = 200"
    and "json_Decode c GetByFilter_result_tags (Body resp) = Inr result"
  shows "MerchantOrderGetByFilter c status beginTime endTime tr =
           (if int_field result ''errcode'' = 0
            then (Some (list_field result ''order_list''), None)
            else (None, Some (RemoteError \<lparr>ErrCode = int_field result ''errcode'',
                                           ErrMsg = str_field result ''errmsg''\<rparr>)),
            tr @ [EvToken, EvPost (merchantOrderGetByFilterURL c token) (jsonContentType c) body,
                  EvDecode, EvBodyClose])"
  using assms(1,5)
  by (simp add: MerchantOrderGetByFilter_def postJSON_decodes [OF assms(2-4)] result_Error_def)

text \<open>
  C7. For \<open>MediaUpload\<close>, \<open>MediaUploadNews\<close>, \<open>MediaUploadVideo\<close>,
  \<open>MerchantOrderGetById\<close> and \<open>MerchantOrderGetByFilter\<close>: a call that returns a non-nil
  result returns no error, and a response with status 200 was decoded into a struct
  whose error code is 0 (for the four operations that go through \<open>postJSON\<close>, the
  result is the payload of that struct). When the response with status 200 is decoded
  into a struct whose error code is not 0, the call returns no result and the error
  value that carries the decoded code and message.
\<close>

theorem result_only_with_zero_code:
  "(fst (fst (MediaUpload c mediaType filename mediaReader tr)) \<noteq> None \<longrightarrow>
      snd (fst (MediaUpload c mediaType filename mediaReader tr)) = None
      \<and> (\<exists>url ctype body resp result.
            httpClient_Post c url ctype body = Inr resp
          \<and> StatusCode resp = 200
          \<and> json_Decode c (if mediaType = MEDIA_TYPE_THUMB then thumb_result_tags
                           else upload_result_tags) (Body resp) = Inr result
          \<and> int_field result ''errcode'' = 0))
   \<and> (fst (fst (MediaUploadNews c news tr)) \<noteq> None \<longrightarrow>
      snd (fst (MediaUploadNews c news tr)) = None
      \<and> (\<exists>url ctype body resp result.
            httpClient_Post c url ctype body = Inr resp
          \<and> StatusCode resp = 200
          \<and> json_Decode c upload_result_tags (Body resp) = Inr result
          \<and> int_field result ''errcode'' = 0
          \<and> fst (fst (MediaUploadNews c news tr)) = Some (result_UploadResponse result)))
   \<and> (fst (fst (MediaUploadVideo c video tr)) \<noteq> None \<longrightarrow>
      snd (fst (MediaUploadVideo c video tr)) = None
      \<and> (\<exists>url ctype body resp result.
            httpClient_Post c url ctype body = Inr resp
          \<and> StatusCode resp = 200
          \<and> json_Decode c upload_result_tags (Body resp) = Inr result
          \<and> int_field result ''errcode'' = 0
          \<and> fst (fst (MediaUploadVideo c video tr)) = Some (result_UploadResponse result)))
   \<and> (fst (fst (MerchantOrderGetById c orderId tr)) \<noteq> None \<longrightarrow>
      snd (fst (MerchantOrderGetById c orderId tr)) = None
      \<and> (\<exists>url ctype body resp result.
            httpClient_Post c url ctype body = Inr resp
          \<and> StatusCode resp = 200
          \<and> json_Decode c GetById_result_tags (Body resp) = Inr result
          \<and> int_field result ''errcode'' = 0
          \<and> fst (fst (MerchantOrderGetById c orderId tr))
              = Some (order_field result ''order'')))
   \<and> (fst (fst (MerchantOrderGetByFilter c status beginTime endTime tr)) \<noteq> None \<longrightarrow>
      snd (fst (MerchantOrderGetByFilter c status beginTime endTime tr)) = None
      \<and> (\<exists>url ctype body resp result.
            httpClient_Post c url ctype body = Inr resp
          \<and> StatusCode resp = 200
          \<and> json_Decode c GetByFilter_result_tags (Body resp) = Inr result
          \<and> int_field result ''errcode'' = 0
          \<and> fst (fst (MerchantOrderGetByFilter c status beginTime endTime tr))
              = Some (list_field result ''order_list'')))
   \<and> (Token c = Inr token \<and> StatusCode resp = 200 \<and> int_field result ''errcode'' \<noteq> 0 \<longrightarrow>
      (mediaType \<in> {MEDIA_TYPE_IMAGE, MEDIA_TYPE_VOICE, MEDIA_TYPE_VIDEO, MEDIA_TYPE_THUMB}
       \<and> filename \<noteq> []
       \<and> multipart_CreateFormFile c ''file'' filename = Inr header
       \<and> rerr rd = None
       \<and> multipart_Close c = Inr trailer
       \<and> httpClient_Post c (mediaUploadURL c token mediaType) (multipart_FormDataContentType c)
            (header @ rdata rd @ trailer) = Inr resp
       \<and> json_Decode c (if mediaType = MEDIA_TYPE_THUMB then thumb_result_tags
                        else upload_result_tags) (Body resp) = Inr result \<longrightarrow>
       fst (MediaUpload c mediaType filename (Some rd) tr) =
         (None, Some (RemoteError \<lparr>ErrCode = int_field result ''errcode'',
                                   ErrMsg = str_field result ''errmsg''\<rparr>)))
    \<and> (json_Encode c payload = Inr body
       \<and> httpClient_Post c (mediaUploadNewsURL c token) (jsonContentType c) body = Inr resp
       \<and> json_Decode c upload_result_tags (Body resp) = Inr result \<longrightarrow>
       fst (MediaUploadNews c (Some payload) tr) =
         (None, Some (RemoteError \<lparr>ErrCode = int_field result ''errcode'',
                                   ErrMsg = str_field result ''errmsg''\<rparr>)))
    \<and> (json_Encode c payload = Inr body
       \<and> httpClient_Post c (mediaUploadVideoURL c token) (jsonContentType c) body = Inr resp
       \<and> json_Decode c upload_result_tags (Body resp) = Inr result \<longrightarrow>
       fst (MediaUploadVideo c (Some payload) tr) =
         (None, Some (RemoteError \<lparr>ErrCode = int_field result ''errcode'',
                                   ErrMsg = str_field result ''errmsg''\<rparr>)))
    \<and> (json_Encode c (GetById_request orderId) = Inr body
       \<and> httpClient_Post c (merchantOrderGetByIdURL c token) (jsonContentType c) body
            = Inr resp
       \<and> json_Decode c GetById_result_tags (Body resp) = Inr result \<longrightarrow>
       fst (MerchantOrderGetById c orderId tr) =
         (None, Some (RemoteError \<lparr>ErrCode = int_field result ''errcode'',
                                   ErrMsg = str_field result ''errmsg''\<rparr>)))
    \<and> (json_Encode c (GetByFilter_request status beginTime endTime) = Inr body
       \<and> httpClient_Post c (merchantOrderGetByFilterURL c token) (jsonContentType c) body
            = Inr resp
       \<and> json_Decode c GetByFilter_result_tags (Body resp) = Inr result \<longrightarrow>
       fst (MerchantOrderGetByFilter c status beginTime endTime tr) =
         (None, Some (RemoteError \<lparr>ErrCode = int_field result ''errcode'',
                                   ErrMsg = str_field result ''errmsg''\<rparr>))))"
proof (intro conjI impI)
  assume "fst (fst (MediaUpload c mediaType filename mediaReader tr)) \<noteq> None"
  from MediaUpload_result_inv [OF this]
  show "snd (fst (MediaUpload c mediaType filename mediaReader tr)) = None"
    and "\<exists>url ctype body resp result.
            httpClient_Post c url ctype body = Inr resp
          \<and> StatusCode resp = 200
          \<and> json_Decode c (if mediaType = MEDIA_TYPE_THUMB then thumb_result_tags
                           else upload_result_tags) (Body resp) = Inr result
          \<and> int_field result ''errcode'' = 0"
    by blast+
next
  assume "fst (fst (MediaUploadNews c news tr)) \<noteq> None"
  from News_result_inv [OF this]
  show "snd (fst (MediaUploadNews c news tr)) = None"
    and "\<exists>url ctype body resp result.
            httpClient_Post c url ctype body = Inr resp
          \<and> StatusCode resp = 200
          \<and> json_Decode c upload_result_tags (Body resp) = Inr result
          \<and> int_field result ''errcode'' = 0
          \<and> fst (fst (MediaUploadNews c news tr)) = Some (result_UploadResponse result)"
    by blast+
next
  assume "fst (fst (MediaUploadVideo c video tr)) \<noteq> None"
  from Video_result_inv [OF this]
  show "snd (fst (MediaUploadVideo c video tr)) = None"
    and "\<exists>url ctype body resp result.
            httpClient_Post c url ctype body = Inr resp
          \<and> StatusCode resp = 200
          \<and> json_Decode c upload_result_tags (Body resp) = Inr result
          \<and> int_field result ''errcode'' = 0
          \<and> fst (fst (MediaUploadVideo c video tr)) = Some (result_UploadResponse result)"
    by blast+
next
  assume "fst (fst (MerchantOrderGetById c orderId tr)) \<noteq> None"
  from GetById_result_inv [OF this]
  show "snd (fst (MerchantOrderGetById c orderId tr)) = None"
    and "\<exists>url ctype body resp result.
            httpClient_Post c url ctype body = Inr resp
          \<and> StatusCode resp = 200
          \<and> json_Decode c GetById_result_tags (Body resp) = Inr result
          \<and> int_field result ''errcode'' = 0
          \<and> fst (fst (MerchantOrderGetById c orderId tr))
              = Some (order_field result ''order'')"
    by blast+
next
  assume "fst (fst (MerchantOrderGetByFilter c status beginTime endTime tr)) \<noteq> None"
  from GetByFilter_result_inv [OF this]
  show "snd (fst (MerchantOrderGetByFilter c status beginTime endTime tr)) = None"
    and "\<exists>url ctype body resp result.
            httpClient_Post c url ctype body = Inr resp
          \<and> StatusCode resp = 200
          \<and> json_Decode c GetByFilter_result_tags (Body resp) = Inr result
          \<and> int_field result ''errcode'' = 0
          \<and> fst (fst (MerchantOrderGetByFilter c status beginTime endTime tr))
              = Some (list_field result ''order_list'')"
    by blast+
next
  assume "Token c = Inr token \<and> StatusCode resp = 200 \<and> int_field result ''errcode'' \<noteq> 0"
    and "mediaType \<in> {MEDIA_TYPE_IMAGE, MEDIA_TYPE_VOICE, MEDIA_TYPE_VIDEO, MEDIA_TYPE_THUMB}
       \<and> filename \<noteq> []
       \<and> multipart_CreateFormFile c ''file'' filename = Inr header
       \<and> rerr rd = None
       \<and> multipart_Close c = Inr trailer
       \<and> httpClient_Post c (mediaUploadURL c token mediaType) (multipart_FormDataContentType c)
            (header @ rdata rd @ trailer) = Inr resp
       \<and> json_Decode c (if mediaType = MEDIA_TYPE_THUMB then thumb_result_tags
                        else upload_result_tags) (Body resp) = Inr result"
  then show "fst (MediaUpload c mediaType filename (Some rd) tr) =
         (None, Some (RemoteError \<lparr>ErrCode = int_field result ''errcode'',
                                   ErrMsg = str_field result ''errmsg''\<rparr>))"
    by (simp add: MediaUpload_decoded)
next
  assume "Token c = Inr token \<and> StatusCode resp = 200 \<and> int_field result ''errcode'' \<noteq> 0"
    and "json_Encode c payload = Inr body
       \<and> httpClient_Post c (mediaUploadNewsURL c token) (jsonContentType c) body = Inr resp
       \<and> json_Decode c upload_result_tags (Body resp) = Inr result"
  then show "fst (MediaUploadNews c (Some payload) tr) =
         (None, Some (RemoteError \<lparr>ErrCode = int_field result ''errcode'',
                                   ErrMsg = str_field result ''errmsg''\<rparr>))"
    by (simp add: News_decoded)
next
  assume "Token c = Inr token \<and> StatusCode resp = 200 \<and> int_field result ''errcode'' \<noteq> 0"
    and "json_Encode c payload = Inr body
       \<and> httpClient_Post c (mediaUploadVideoURL c token) (jsonContentType c) body = Inr resp
       \<and> json_Decode c upload_result_tags (Body resp) = Inr result"
  then show "fst (MediaUploadVideo c (Some payload) tr) =
         (None, Some (RemoteError \<lparr>ErrCode = int_field result ''errcode'',
                                   ErrMsg = str_field result ''errmsg''\<rparr>))"
    by (simp add: Video_decoded)
next
  assume "Token c = Inr token \<and> StatusCode resp = 200 \<and> int_field result ''errcode'' \<noteq> 0"
    and "json_Encode c (GetById_request orderId) = Inr body
       \<and> httpClient_Post c (merchantOrderGetByIdURL c token) (jsonContentType c) body
            = Inr resp
       \<and> json_Decode c GetById_result_tags (Body resp) = Inr result"
  then show "fst (MerchantOrderGetById c orderId tr) =
         (None, Some (RemoteError \<lparr>ErrCode = int_field result ''errcode'',
                                   ErrMsg = str_field result ''errmsg''\<rparr>))"
    by (simp add: GetById_decoded)
next
  assume "Token c = Inr token \<and> StatusCode resp = 200 \<and> int_field result ''errcode'' \<noteq> 0"
    and "json_Encode c (GetByFilter_request status beginTime endTime) = Inr body
       \<and> httpClient_Post c (merchantOrderGetByFilterURL c token) (jsonContentType c) body
            = Inr resp
       \<and> json_Decode c GetByFilter_result_tags (Body resp) = Inr result"
  then show "fst (MerchantOrderGetByFilter c status beginTime endTime tr) =
         (None, Some (RemoteError \<lparr>ErrCode = int_field result ''errcode'',
                                   ErrMsg = str_field result ''errmsg''\<rparr>))"
    by (simp add: GetByFilter_decoded)
qed

theorem result_only_with_zero_code_witness:
  "fst (MediaUpload (fake_env ok_response (Inr success_doc)) ''image'' ''a.jpg''
          (Some data_file) [])
     = (Some \<lparr>MediaType = ''image'', MediaId = ''M'', CreatedAt = 5\<rparr>, None)
   \<and> fst (MediaUploadNews (fake_env ok_response (Inr success_doc)) (Some (JObject [])) [])
     = (Some \<lparr>MediaType = ''image'', MediaId = ''M'', CreatedAt = 5\<rparr>, None)
   \<and> fst (MediaUploadVideo (fake_env ok_response (Inr success_doc)) (Some (JObject [])) [])
     = (Some \<lparr>MediaType = ''image'', MediaId = ''M'', CreatedAt = 5\<rparr>, None)
   \<and> fst (MerchantOrderGetById (fake_env ok_response (Inr success_doc)) ''7'' [])
     = (Some (JObject [(''order_id'', JString ''7'')]), None)
   \<and> fst (MerchantOrderGetByFilter (fake_env ok_response (Inr success_doc)) 2 0 0 [])
     = (Some [JObject [(''order_id'', JString ''7'')], JObject [(''order_id'', JString ''8'')]],
        None)
   \<and> fst (MediaUpload (fake_env ok_response (Inr remote_error_doc)) ''image'' ''a.jpg''
          (Some data_file) [])
     = (None, Some (RemoteError \<lparr>ErrCode = 40001, ErrMsg = ''invalid credential''\<rparr>))
   \<and> fst (MediaUploadNews (fake_env ok_response (Inr remote_error_doc)) (Some (JObject [])) [])
     = (None, Some (RemoteError \<lparr>ErrCode = 40001, ErrMsg = ''invalid credential''\<rparr>))
   \<and> fst (MediaUploadVideo (fake_env ok_response (Inr remote_error_doc)) (Some (JObject [])) [])
     = (None, Some (RemoteError \<lparr>ErrCode = 40001, ErrMsg = ''invalid credential''\<rparr>))
   \<and> fst (MerchantOrderGetById (fake_env ok_response (Inr remote_error_doc)) ''7'' [])
     = (None, Some (RemoteError \<lparr>ErrCode = 40001, ErrMsg = ''invalid credential''\<rparr>))
   \<and> fst (MerchantOrderGetByFilter (fake_env ok_response (Inr remote_error_doc)) 2 0 0 [])
     = (None, Some (RemoteError \<lparr>ErrCode = 40001, ErrMsg = ''invalid credential''\<rparr>))"
proof -
  have ok: "fst (MediaUpload (fake_env ok_response (Inr success_doc)) ''image'' ''a.jpg''
          (Some data_file) [])
     = (Some \<lparr>MediaType = ''image'', MediaId = ''M'', CreatedAt = 5\<rparr>, None)"
    "fst (MediaUploadNews (fake_env ok_response (Inr success_doc)) (Some (JObject [])) [])
     = (Some \<lparr>MediaType = ''image'', MediaId = ''M'', CreatedAt = 5\<rparr>, None)"
    "fst (MediaUploadVideo (fake_env ok_response (Inr success_doc)) (Some (JObject [])) [])
     = (Some \<lparr>MediaType = ''image'', MediaId = ''M'', CreatedAt = 5\<rparr>, None)"
    "fst (MerchantOrderGetById (fake_env ok_response (Inr success_doc)) ''7'' [])
     = (Some (JObject [(''order_id'', JString ''7'')]), None)"
    "fst (MerchantOrderGetByFilter (fake_env ok_response (Inr success_doc)) 2 0 0 [])
     = (Some [JObject [(''order_id'', JString ''7'')], JObject [(''order_id'', JString ''8'')]],
        None)"
    by (simp_all add: run_defs ok_response_def success_doc_def)
  note t = result_only_with_zero_code
    [where c = "fake_env ok_response (Inr remote_error_doc)" and token = "''TOKEN''"
       and resp = ok_response and tr = "[]" and mediaType = "''image''"
       and filename = "''a.jpg''" and rd = data_file and header = "''[file:a.jpg]''"
       and trailer = "''[end]''" and payload = "JObject []" and orderId = "''7''"
       and status = 2 and beginTime = 0 and endTime = 0]
  have err: "fst (MediaUpload (fake_env ok_response (Inr remote_error_doc)) ''image'' ''a.jpg''
          (Some data_file) [])
     = (None, Some (RemoteError \<lparr>ErrCode = 40001, ErrMsg = ''invalid credential''\<rparr>))"
    "fst (MediaUploadNews (fake_env ok_response (Inr remote_error_doc)) (Some (JObject [])) [])
     = (None, Some (RemoteError \<lparr>ErrCode = 40001, ErrMsg = ''invalid credential''\<rparr>))"
    "fst (MediaUploadVideo (fake_env ok_response (Inr remote_error_doc)) (Some (JObject [])) [])
     = (None, Some (RemoteError \<lparr>ErrCode = 40001, ErrMsg = ''invalid credential''\<rparr>))"
    using t [where body = "''{}''"
               and result = "[(''errcode'', JInt 40001), (''errmsg'', JString ''invalid credential''),
                              (''media_id'', JString ''M'')]",
               THEN conjunct2, THEN conjunct2, THEN conjunct2, THEN conjunct2, THEN conjunct2]
    by (simp_all add: fake_env_simps fake_response_simps ok_response_def data_file_def
          remote_error_doc_def upload_result_tags_def int_field_def str_field_def
          MEDIA_TYPE_IMAGE_def MEDIA_TYPE_VOICE_def MEDIA_TYPE_VIDEO_def MEDIA_TYPE_THUMB_def)
  have err2: "fst (MerchantOrderGetById (fake_env ok_response (Inr remote_error_doc)) ''7'' [])
     = (None, Some (RemoteError \<lparr>ErrCode = 40001, ErrMsg = ''invalid credential''\<rparr>))"
    using t [where body = "''{order_id,}''"
               and result = "[(''errcode'', JInt 40001), (''errmsg'', JString ''invalid credential''),
                              (''order'', JObject [(''order_id'', JString ''7'')])]",
               THEN conjunct2, THEN conjunct2, THEN conjunct2, THEN conjunct2, THEN conjunct2]
    by (simp add: fake_env_simps fake_response_simps ok_response_def
          remote_error_doc_def GetById_result_tags_def GetById_request_def
          int_field_def str_field_def)
  have err3: "fst (MerchantOrderGetByFilter (fake_env ok_response (Inr remote_error_doc)) 2 0 0 [])
     = (None, Some (RemoteError \<lparr>ErrCode = 40001, ErrMsg = ''invalid credential''\<rparr>))"
    using t [where body = "''{status,}''"
               and result = "[(''errcode'', JInt 40001), (''errmsg'', JString ''invalid credential''),
                              (''order_list'', JArray [JObject [(''order_id'', JString ''7'')]])]",
               THEN conjunct2, THEN conjunct2, THEN conjunct2, THEN conjunct2, THEN conjunct2]
    by (simp add: fake_env_simps fake_response_simps ok_response_def
          remote_error_doc_def GetByFilter_result_tags_def GetByFilter_request_def omitempty_def
          int_field_def str_field_def)
  from ok err err2 err3 show ?thesis by simp
qed

text \<open>
  C9. \<open>MediaUploadNews\<close> and \<open>MediaUploadVideo\<close> with a nil payload return a
  precondition error and log no event: no token is fetched, no request is made. With a
  payload, a token, a response with status 200 to the POST of the encoded payload and a
  decoded response, they return the embedded \<open>UploadResponse\<close> and no error when the
  decoded error code is 0, and no result and the remote error otherwise.
\<close>

theorem news_and_video_upload:
  "MediaUploadNews c None tr = ((None, Some (ErrorsNew ''news == nil'')), tr)
   \<and> MediaUploadVideo c None tr = ((None, Some (ErrorsNew ''video == nil'')), tr)
   \<and> (Token c = Inr token
      \<and> json_Encode c payload = Inr body
      \<and> httpClient_Post c (mediaUploadNewsURL c token) (jsonContentType c) body = Inr resp
      \<and> StatusCode resp = 200
      \<and> json_Decode c upload_result_tags (Body resp) = Inr result \<longrightarrow>
      MediaUploadNews c (Some payload) tr =
        (if int_field result ''errcode'' = 0
         then (Some (result_UploadResponse result), None)
         else (None, Some (RemoteError \<lparr>ErrCode = int_field result ''errcode'',
                                        ErrMsg = str_field result ''errmsg''\<rparr>)),
         tr @ [EvToken, EvPost (mediaUploadNewsURL c token) (jsonContentType c) body,
               EvDecode, EvBodyClose]))
   \<and> (Token c = Inr token
      \<and> json_Encode c payload = Inr body
      \<and> httpClient_Post c (mediaUploadVideoURL c token) (jsonContentType c) body = Inr resp
      \<and> StatusCode resp = 200
      \<and> json_Decode c upload_result_tags (Body resp) = Inr result \<longrightarrow>
      MediaUploadVideo c (Some payload) tr =
        (if int_field result ''errcode'' = 0
         then (Some (result_UploadResponse result), None)
         else (None, Some (RemoteError \<lparr>ErrCode = int_field result ''errcode'',
                                        ErrMsg = str_field result ''errmsg''\<rparr>)),
         tr @ [EvToken, EvPost (mediaUploadVideoURL c token) (jsonContentType c) body,
               EvDecode, EvBodyClose]))"
proof (intro conjI impI)
  show "MediaUploadNews c None tr = ((None, Some (ErrorsNew ''news == nil'')), tr)"
    by (simp add: MediaUploadNews_def)
  show "MediaUploadVideo c None tr = ((None, Some (ErrorsNew ''video == nil'')), tr)"
    by (simp add: MediaUploadVideo_def)
next
  assume "Token c = Inr token
      \<and> json_Encode c payload = Inr body
      \<and> httpClient_Post c (mediaUploadNewsURL c token) (jsonContentType c) body = Inr resp
      \<and> StatusCode resp = 200
      \<and> json_Decode c upload_result_tags (Body resp) = Inr result"
  then show "MediaUploadNews c (Some payload) tr =
        (if int_field result ''errcode'' = 0
         then (Some (result_UploadResponse result), None)
         else (None, Some (RemoteError \<lparr>ErrCode = int_field result ''errcode'',
                                        ErrMsg = str_field result ''errmsg''\<rparr>)),
         tr @ [EvToken, EvPost (mediaUploadNewsURL c token) (jsonContentType c) body,
               EvDecode, EvBodyClose])"
    using News_decoded [of c token payload body resp result tr] by blast
next
  assume "Token c = Inr token
      \<and> json_Encode c payload = Inr body
      \<and> httpClient_Post c (mediaUploadVideoURL c token) (jsonContentType c) body = Inr resp
      \<and> StatusCode resp = 200
      \<and> json_Decode c upload_result_tags (Body resp) = Inr result"
  then show "MediaUploadVideo c (Some payload) tr =
        (if int_field result ''errcode'' = 0
         then (Some (result_UploadResponse result), None)
         else (None, Some (RemoteError \<lparr>ErrCode = int_field result ''errcode'',
                                        ErrMsg = str_field result ''errmsg''\<rparr>)),
         tr @ [EvToken, EvPost (mediaUploadVideoURL c token) (jsonContentType c) body,
               EvDecode, EvBodyClose])"
    using Video_decoded [of c token payload body resp result tr] by blast
qed

theorem news_and_video_upload_witness:
  "MediaUploadNews (fake_env ok_response (Inr success_doc)) (Some (JObject [])) []
     = ((Some \<lparr>MediaType = ''image'', MediaId = ''M'', CreatedAt = 5\<rparr>, None),
        [EvToken, EvPost ''uploadnews?TOKEN'' ''application/json'' ''{}'', EvDecode, EvBodyClose])
   \<and> MediaUploadVideo (fake_env ok_response (Inr remote_error_doc)) (Some (JObject [])) []
     = ((None, Some (RemoteError \<lparr>ErrCode = 40001, ErrMsg = ''invalid credential''\<rparr>)),
        [EvToken, EvPost ''uploadvideo?TOKEN'' ''application/json'' ''{}'', EvDecode,
         EvBodyClose])"
  using news_and_video_upload
      [where c = "fake_env ok_response (Inr success_doc)" and token = "''TOKEN''"
         and payload = "JObject []" and body = "''{}''" and resp = ok_response and tr = "[]"
         and result = "[(''errcode'', JInt 0), (''type'', JString ''image''),
                        (''media_id'', JString ''M''), (''created_at'', JInt 5)]"]
    news_and_video_upload
      [where c = "fake_env ok_response (Inr remote_error_doc)" and token = "''TOKEN''"
         and payload = "JObject []" and body = "''{}''" and resp = ok_response and tr = "[]"
         and result = "[(''errcode'', JInt 40001), (''errmsg'', JString ''invalid credential''),
                              (''media_id'', JString ''M'')]"]
  by (simp add: fake_env_simps fake_response_simps ok_response_def success_doc_def
        remote_error_doc_def upload_result_tags_def int_field_def str_field_def
        result_UploadResponse_def)

end
